theory Spec2Isabelle
  imports Complex_Main
begin

section \<open>Tensors\<close>

text \<open>
  The trainer of \<^verbatim>\<open>ml/rl/training/ranking/seq2slate_trainer.py\<close> computes with
  torch tensors. A tensor is modelled by its shape, its entries in row-major order and
  its \<^verbatim>\<open>requires_grad\<close> flag. Entries are real numbers: the model abstracts from
  the rounding of 32-bit floats, and from the device a tensor lives on.
\<close>

record tensor =
  shape :: "nat list"
  data :: "real list"
  requires_grad :: bool

definition numel :: "tensor \<Rightarrow> nat" where
  "numel t = prod_list (shape t)"

definition wf_tensor :: "tensor \<Rightarrow> bool" where
  "wf_tensor t = (length (data t) = prod_list (shape t))"

text \<open>\<^verbatim>\<open>t.squeeze()\<close> without an argument drops every dimension of size 1.\<close>

definition squeeze :: "tensor \<Rightarrow> tensor" where
  "squeeze t = t\<lparr>shape := filter (\<lambda>d. d \<noteq> 1) (shape t)\<rparr>"

definition detach :: "tensor \<Rightarrow> tensor" where
  "detach t = t\<lparr>requires_grad := False\<rparr>"

text \<open>
  Broadcasting aligns two shapes at their last dimension. Two sizes are compatible when
  they are equal or one of them is 1; the result takes the other size. The function below
  works on the reversed shapes; \<open>None\<close> is the shape mismatch on which torch raises
  \<^verbatim>\<open>RuntimeError\<close>.
\<close>

fun broadcast_rev :: "nat list \<Rightarrow> nat list \<Rightarrow> nat list option" where
  "broadcast_rev [] ys = Some ys"
| "broadcast_rev (x # xs) [] = Some (x # xs)"
| "broadcast_rev (x # xs) (y # ys) =
     (if x = y \<or> y = 1 then map_option (Cons x) (broadcast_rev xs ys)
      else if x = 1 then map_option (Cons y) (broadcast_rev xs ys)
      else None)"

definition broadcast_shapes :: "nat list \<Rightarrow> nat list \<Rightarrow> nat list option" where
  "broadcast_shapes s1 s2 = map_option rev (broadcast_rev (rev s1) (rev s2))"

text \<open>A shape of lower rank is padded with leading dimensions of size 1.\<close>

definition pad_shape :: "nat \<Rightarrow> nat list \<Rightarrow> nat list" where
  "pad_shape n s = replicate (n - length s) 1 @ s"

text \<open>
  \<open>expand src tgt xs\<close> lays the entries \<open>xs\<close> of a tensor of shape \<open>src\<close> out in the
  shape \<open>tgt\<close> of the same rank: a dimension of size 1 is repeated, any other dimension is
  walked block by block.
\<close>

fun expand :: "nat list \<Rightarrow> nat list \<Rightarrow> real list \<Rightarrow> real list" where
  "expand (s # ss) (t # ts) xs =
     (if s = 1 then concat (replicate t (expand ss ts xs))
      else concat (map (\<lambda>i. expand ss ts (take (prod_list ss) (drop (i * prod_list ss) xs)))
                       [0..<s]))"
| "expand _ _ xs = xs"

definition tbinop :: "(real \<Rightarrow> real \<Rightarrow> real) \<Rightarrow> tensor \<Rightarrow> tensor \<Rightarrow> tensor option" where
  "tbinop f a b =
     (case broadcast_shapes (shape a) (shape b) of
        None \<Rightarrow> None
      | Some s \<Rightarrow>
          Some \<lparr>shape = s,
                data = map2 f (expand (pad_shape (length s) (shape a)) s (data a))
                              (expand (pad_shape (length s) (shape b)) s (data b)),
                requires_grad = (requires_grad a \<or> requires_grad b)\<rparr>)"

definition tsub :: "tensor \<Rightarrow> tensor \<Rightarrow> tensor option" where
  "tsub = tbinop (\<lambda>x y. x - y)"

definition tmul :: "tensor \<Rightarrow> tensor \<Rightarrow> tensor option" where
  "tmul = tbinop (\<lambda>x y. x * y)"

definition tdiv :: "tensor \<Rightarrow> tensor \<Rightarrow> tensor option" where
  "tdiv = tbinop (\<lambda>x y. x / y)"

definition tmap :: "(real \<Rightarrow> real) \<Rightarrow> tensor \<Rightarrow> tensor" where
  "tmap f t = t\<lparr>data := map f (data t)\<rparr>"

definition tneg :: "tensor \<Rightarrow> tensor" where
  "tneg = tmap uminus"

definition texp :: "tensor \<Rightarrow> tensor" where
  "texp = tmap exp"

text \<open>\<^verbatim>\<open>t ** 2\<close>\<close>

definition tsquare :: "tensor \<Rightarrow> tensor" where
  "tsquare = tmap (\<lambda>x. x ^ 2)"

text \<open>\<^verbatim>\<open>torch.sum(t)\<close>: a tensor with no dimension holding the sum of all entries.\<close>

definition tsum :: "tensor \<Rightarrow> tensor" where
  "tsum t = \<lparr>shape = [], data = [sum_list (data t)], requires_grad = requires_grad t\<rparr>"

text \<open>\<^verbatim>\<open>c * t\<close> for a Python float \<open>c\<close>.\<close>

definition scale :: "real \<Rightarrow> tensor \<Rightarrow> tensor" where
  "scale c = tmap (\<lambda>x. c * x)"

text \<open>\<^verbatim>\<open>torch.FloatTensor([1.0])\<close>\<close>

definition float_tensor_one :: tensor where
  "float_tensor_one = \<lparr>shape = [1], data = [1], requires_grad = False\<rparr>"

section \<open>The objects of the trainer\<close>

text \<open>
  Trainable parameters live in a store shared by everything that holds a reference to
  them: an address stands for one parameter entry, \<open>param_data\<close> gives its current value and
  \<open>param_grad\<close> its \<^verbatim>\<open>.grad\<close> (\<open>None\<close> before the first backward pass).
\<close>

type_synonym addr = nat

type_synonym store = "addr \<Rightarrow> real"

record heap =
  param_data :: store
  param_grad :: "addr \<Rightarrow> real option"

datatype py_error = AssertionError | IndexError | ZeroDivisionError | RuntimeError | TypeError

text \<open>
  Modelled from the spec: \<^verbatim>\<open>ml.rl.types\<close> is not part of the sources. Of
  \<^verbatim>\<open>PreprocessedRankingInput\<close> the trainer reads \<^verbatim>\<open>state.float_features\<close>,
  \<^verbatim>\<open>slate_reward\<close> and \<^verbatim>\<open>tgt_out_probs\<close>; the encoding of the logged slate is
  passed to the networks unread. The two optional fields may be \<^verbatim>\<open>None\<close>.
\<close>

record ranking_input =
  float_features :: tensor
  target_slate :: "nat list list"
  slate_reward :: "tensor option"
  tgt_out_probs :: "tensor option"

text \<open>
  The two type tests of \<^verbatim>\<open>train\<close> distinguish a
  \<^verbatim>\<open>PreprocessedTrainingBatch\<close> holding a \<^verbatim>\<open>PreprocessedRankingInput\<close> from
  every other object.
\<close>

datatype training_input = PreprocessedRankingInput ranking_input | OtherInput

datatype training_batch = PreprocessedTrainingBatch training_input | OtherBatch

text \<open>
  Modelled from the spec: \<^verbatim>\<open>ml.rl.models.seq2slate\<close> is not part of the sources. A
  network is its list of parameter addresses (\<^verbatim>\<open>parameters()\<close>) and its forward
  pass, a function of the current parameter values and the input. For the policy network
  the forward pass takes the mode and yields the \<^verbatim>\<open>log_probs\<close> field of its output.
\<close>

datatype seq2slate_mode = LOG_PROB_MODE | OTHER_MODE

record BaselineNet =
  bn_parameters :: "addr list"
  bn_forward :: "store \<Rightarrow> ranking_input \<Rightarrow> tensor"

record Seq2SlateTransformerNet =
  sn_parameters :: "addr list"
  sn_log_probs :: "store \<Rightarrow> ranking_input \<Rightarrow> seq2slate_mode \<Rightarrow> tensor"

record Seq2SlateTransformerParameters =
  on_policy :: bool

text \<open>
  \<^verbatim>\<open>torch.optim.Adam\<close>: the parameters it was constructed on, its settings and its
  running statistics for each parameter.
\<close>

record Adam =
  param_groups :: "addr list"
  lr :: real
  amsgrad :: bool
  opt_state :: "addr \<Rightarrow> real list"

definition new_Adam :: "addr list \<Rightarrow> real \<Rightarrow> bool \<Rightarrow> Adam" where
  "new_Adam params l a = \<lparr>param_groups = params, lr = l, amsgrad = a, opt_state = (\<lambda>_. [])\<rparr>"

text \<open>
  Automatic differentiation and the update rule of Adam are taken as parameters.
  \<open>autograd f \<sigma> a\<close> is the derivative at the parameter values \<open>\<sigma>\<close> of the loss \<open>f\<close>, a
  function of the parameter values, with respect to the entry \<open>a\<close>, or \<open>None\<close> when the
  loss was not computed from that entry. \<open>adam_update l ams st v g\<close> maps the statistics
  \<open>st\<close>, the value \<open>v\<close> and the gradient \<open>g\<close> of one entry to its new statistics and value.
\<close>

record torch =
  autograd :: "(store \<Rightarrow> tensor option) \<Rightarrow> store \<Rightarrow> addr \<Rightarrow> real option"
  adam_update :: "real \<Rightarrow> bool \<Rightarrow> real list \<Rightarrow> real \<Rightarrow> real \<Rightarrow> real list \<times> real"

text \<open>\<^verbatim>\<open>opt.zero_grad()\<close> clears the gradients of the optimizer's own parameters.\<close>

definition zero_grad :: "Adam \<Rightarrow> heap \<Rightarrow> heap" where
  "zero_grad opt h =
     h\<lparr>param_grad := (\<lambda>a. if a \<in> set (param_groups opt) then map_option (\<lambda>_. 0) (param_grad h a)
                       else param_grad h a)\<rparr>"

text \<open>
  \<^verbatim>\<open>loss.backward()\<close> adds the derivative of the loss to the gradient of every entry
  the loss was computed from. On a loss that does not require a gradient torch raises
  \<^verbatim>\<open>RuntimeError\<close> (\<open>None\<close>).
\<close>

definition backward :: "torch \<Rightarrow> tensor \<Rightarrow> (store \<Rightarrow> tensor option) \<Rightarrow> heap \<Rightarrow> heap option" where
  "backward T loss loss_fn h =
     (if \<not> requires_grad loss then None
      else Some (h\<lparr>param_grad := (\<lambda>a. case autograd T loss_fn (param_data h) a of
                                    None \<Rightarrow> param_grad h a
                                  | Some g \<Rightarrow> Some (case param_grad h a of None \<Rightarrow> g | Some g0 \<Rightarrow> g0 + g))\<rparr>))"

text \<open>
  \<^verbatim>\<open>opt.step()\<close> visits the optimizer's parameters in order and updates each one that
  has a gradient.
\<close>

definition step_param :: "torch \<Rightarrow> addr \<Rightarrow> Adam \<times> heap \<Rightarrow> Adam \<times> heap" where
  "step_param T a oh =
     (case oh of (opt, h) \<Rightarrow>
        (case param_grad h a of
           None \<Rightarrow> (opt, h)
         | Some g \<Rightarrow>
             (case adam_update T (lr opt) (amsgrad opt) (opt_state opt a) (param_data h a) g of
                (st, v) \<Rightarrow> (opt\<lparr>opt_state := (opt_state opt)(a := st)\<rparr>,
                            h\<lparr>param_data := (param_data h)(a := v)\<rparr>))))"

definition step :: "torch \<Rightarrow> Adam \<Rightarrow> heap \<Rightarrow> Adam \<times> heap" where
  "step T opt h = fold (step_param T) (param_groups opt) (opt, h)"

section \<open>Seq2SlateTrainer\<close>

record trainer =
  parameters :: Seq2SlateTransformerParameters
  use_gpu :: bool
  seq2slate_net :: Seq2SlateTransformerNet
  baseline_net :: BaselineNet
  minibatch_size :: int
  minibatch :: nat
  rl_opt :: Adam
  baseline_opt :: Adam

text \<open>\<^verbatim>\<open>Seq2SlateTrainer.__init__\<close>\<close>

definition init ::
  "Seq2SlateTransformerNet \<Rightarrow> BaselineNet \<Rightarrow> Seq2SlateTransformerParameters \<Rightarrow> int \<Rightarrow> bool
     \<Rightarrow> trainer" where
  "init seq2slate_net0 baseline_net0 parameters0 minibatch_size0 use_gpu0 =
     \<lparr>parameters = parameters0,
      use_gpu = use_gpu0,
      seq2slate_net = seq2slate_net0,
      baseline_net = baseline_net0,
      minibatch_size = minibatch_size0,
      minibatch = 0,
      rl_opt = new_Adam (sn_parameters seq2slate_net0) (1 / 1000) True,
      baseline_opt = new_Adam (bn_parameters baseline_net0) (1 / 1000) True\<rparr>"

text \<open>\<^verbatim>\<open>Seq2SlateTrainer.warm_start_components\<close>\<close>

definition warm_start_components :: "string list" where
  "warm_start_components = [''seq2slate_net'', ''baseline_net'']"

text \<open>
  Lines 53 and 54 as a function of the parameter values: the loss that
  \<^verbatim>\<open>baseline_loss.backward()\<close> differentiates.
\<close>

definition baseline_loss_fn ::
  "BaselineNet \<Rightarrow> ranking_input \<Rightarrow> tensor \<Rightarrow> nat \<Rightarrow> store \<Rightarrow> tensor option" where
  "baseline_loss_fn net inp reward batch_size \<sigma> =
     (case tsub (squeeze (bn_forward net \<sigma> inp)) reward of
        None \<Rightarrow> None
      | Some d \<Rightarrow> Some (scale (1 / real batch_size) (tsum (tsquare d))))"

text \<open>
  Lines 52 to 57, the baseline regression. The result is \<open>b\<close> and the loss;
  \<^verbatim>\<open>1.0 / batch_size\<close> is a division of Python numbers and raises on zero.
\<close>

definition train_baseline ::
  "torch \<Rightarrow> trainer \<Rightarrow> heap \<Rightarrow> ranking_input \<Rightarrow> tensor \<Rightarrow> nat
     \<Rightarrow> (py_error + tensor \<times> tensor) \<times> trainer \<times> heap" where
  "train_baseline T self h inp reward batch_size =
     (let b = squeeze (bn_forward (baseline_net self) (param_data h) inp) in
      if batch_size = 0 then (Inl ZeroDivisionError, self, h)
      else
        (case tsub b reward of
           None \<Rightarrow> (Inl RuntimeError, self, h)
         | Some d \<Rightarrow>
             (let baseline_loss = scale (1 / real batch_size) (tsum (tsquare d));
                  h1 = zero_grad (baseline_opt self) h
              in case backward T baseline_loss
                        (baseline_loss_fn (baseline_net self) inp reward batch_size) h1 of
                   None \<Rightarrow> (Inl RuntimeError, self, h1)
                 | Some h2 \<Rightarrow>
                     (case step T (baseline_opt self) h2 of
                        (opt, h3) \<Rightarrow>
                          (Inr (b, baseline_loss), self\<lparr>baseline_opt := opt\<rparr>, h3)))))"

text \<open>The device of a tensor is not modelled.\<close>

definition cuda :: "tensor \<Rightarrow> tensor" where
  "cuda t = t"

text \<open>
  Lines 66 to 73. Dividing a tensor by \<^verbatim>\<open>None\<close> raises \<^verbatim>\<open>TypeError\<close>.
\<close>

definition importance_sampling_of ::
  "trainer \<Rightarrow> ranking_input \<Rightarrow> tensor \<Rightarrow> py_error + tensor" where
  "importance_sampling_of self inp log_probs =
     (if \<not> on_policy (parameters self) then
        (case tgt_out_probs inp of
           None \<Rightarrow> Inl TypeError
         | Some p \<Rightarrow>
             (case tdiv (texp (detach log_probs)) p of
                None \<Rightarrow> Inl RuntimeError
              | Some w \<Rightarrow> Inr w))
      else Inr (if use_gpu self then cuda float_tensor_one else float_tensor_one))"

text \<open>Lines 76 and 77.\<close>

definition rl_loss_of :: "tensor \<Rightarrow> tensor \<Rightarrow> tensor \<Rightarrow> tensor \<Rightarrow> nat \<Rightarrow> tensor option" where
  "rl_loss_of importance_sampling log_probs reward b batch_size =
     (case tmul (tneg importance_sampling) log_probs of
        None \<Rightarrow> None
      | Some m \<Rightarrow>
          (case tsub reward b of
             None \<Rightarrow> None
           | Some adv \<Rightarrow>
               (case tmul m adv of
                  None \<Rightarrow> None
                | Some batch_loss \<Rightarrow> Some (scale (1 / real batch_size) (tsum batch_loss)))))"

text \<open>
  The loss that \<^verbatim>\<open>rl_loss.backward()\<close> differentiates, as a function of the parameter
  values: only \<^verbatim>\<open>log_probs\<close> depends on them, the importance weights and \<open>b\<close> are
  detached.
\<close>

definition rl_loss_fn ::
  "Seq2SlateTransformerNet \<Rightarrow> ranking_input \<Rightarrow> tensor \<Rightarrow> tensor \<Rightarrow> tensor \<Rightarrow> nat \<Rightarrow> store
     \<Rightarrow> tensor option" where
  "rl_loss_fn net inp importance_sampling reward b batch_size \<sigma> =
     rl_loss_of importance_sampling (sn_log_probs net \<sigma> inp LOG_PROB_MODE) reward b batch_size"

text \<open>
  Lines 59 to 81, the policy gradient. The result is \<^verbatim>\<open>log_probs\<close>, the detached
  \<open>b\<close> and the loss.
\<close>

definition train_seq2slate ::
  "torch \<Rightarrow> trainer \<Rightarrow> heap \<Rightarrow> ranking_input \<Rightarrow> tensor \<Rightarrow> nat \<Rightarrow> tensor
     \<Rightarrow> (py_error + tensor \<times> tensor \<times> tensor) \<times> trainer \<times> heap" where
  "train_seq2slate T self h inp reward batch_size b0 =
     (let log_probs = sn_log_probs (seq2slate_net self) (param_data h) inp LOG_PROB_MODE;
          b = detach b0
      in if \<not> (shape b = shape reward \<and> shape reward = shape log_probs)
         then (Inl AssertionError, self, h)
         else if \<not> (\<not> requires_grad b \<and> requires_grad log_probs)
         then (Inl AssertionError, self, h)
         else
           (case importance_sampling_of self inp log_probs of
              Inl e \<Rightarrow> (Inl e, self, h)
            | Inr importance_sampling \<Rightarrow>
                (case rl_loss_of importance_sampling log_probs reward b batch_size of
                   None \<Rightarrow> (Inl RuntimeError, self, h)
                 | Some rl_loss \<Rightarrow>
                     (let h1 = zero_grad (rl_opt self) h
                      in case backward T rl_loss
                                (rl_loss_fn (seq2slate_net self) inp importance_sampling reward b
                                   batch_size) h1 of
                           None \<Rightarrow> (Inl RuntimeError, self, h1)
                         | Some h2 \<Rightarrow>
                             (case step T (rl_opt self) h2 of
                                (opt, h3) \<Rightarrow>
                                  (Inr (log_probs, b, rl_loss), self\<lparr>rl_opt := opt\<rparr>, h3))))))"

text \<open>
  \<^verbatim>\<open>Seq2SlateTrainer.train\<close>. The call returns the tuple of line 96 or raises; in both
  cases the trainer and the parameter store are left as the statements executed so far
  have made them. The clock and the log line are not modelled.
\<close>

type_synonym train_result = "tensor \<times> tensor \<times> tensor \<times> tensor"

definition train ::
  "torch \<Rightarrow> trainer \<Rightarrow> heap \<Rightarrow> training_batch \<Rightarrow> (py_error + train_result) \<times> trainer \<times> heap"
  where
  "train T self h training_batch =
     (case training_batch of
        OtherBatch \<Rightarrow> (Inl AssertionError, self, h)
      | PreprocessedTrainingBatch training_input \<Rightarrow>
     (case training_input of
        OtherInput \<Rightarrow> (Inl AssertionError, self, h)
      | PreprocessedRankingInput inp \<Rightarrow>
     (case shape (float_features inp) of
        [] \<Rightarrow> (Inl IndexError, self, h)
      | batch_size # _ \<Rightarrow>
     (case slate_reward inp of
        None \<Rightarrow> (Inl AssertionError, self, h)
      | Some reward \<Rightarrow>
     (case train_baseline T self h inp reward batch_size of
        (Inl e, self1, h1) \<Rightarrow> (Inl e, self1, h1)
      | (Inr (b0, baseline_loss), self1, h1) \<Rightarrow>
     (case train_seq2slate T self1 h1 inp reward batch_size b0 of
        (Inl e, self2, h2) \<Rightarrow> (Inl e, self2, h2)
      | (Inr (log_probs, b, rl_loss), self2, h2) \<Rightarrow>
     (case tsub reward b of
        None \<Rightarrow> (Inl RuntimeError, self2, h2)
      | Some advantage \<Rightarrow>
          (Inr (detach log_probs, advantage, detach rl_loss, detach baseline_loss),
           self2\<lparr>minibatch := minibatch self2 + 1\<rparr>, h2))))))))"


section \<open>Sequences of calls\<close>

text \<open>
  A caller that issues one call of \<^verbatim>\<open>train\<close> per batch, catching whatever a call
  raises, drives the trainer and the store through the states below. \<open>succeeded\<close> counts
  the calls that returned.
\<close>

fun train_all :: "torch \<Rightarrow> trainer \<times> heap \<Rightarrow> training_batch list \<Rightarrow> trainer \<times> heap" where
  "train_all T s [] = s"
| "train_all T s (tb # tbs) = train_all T (snd (train T (fst s) (snd s) tb)) tbs"

fun succeeded :: "torch \<Rightarrow> trainer \<times> heap \<Rightarrow> training_batch list \<Rightarrow> nat" where
  "succeeded T s [] = 0"
| "succeeded T s (tb # tbs) =
     (case fst (train T (fst s) (snd s) tb) of Inl _ \<Rightarrow> 0 | Inr _ \<Rightarrow> 1)
       + succeeded T (snd (train T (fst s) (snd s) tb)) tbs"

text \<open>
  The trainers that exist: one made by the constructor, or one left behind by a call of
  \<^verbatim>\<open>train\<close> on such a trainer, whatever the store and the batch of that call.
\<close>

inductive constructed :: "torch \<Rightarrow> trainer \<Rightarrow> bool" for T :: torch where
  constructed_init: "constructed T (init seq2slate_net0 baseline_net0 parameters0 n g)"
| constructed_train:
    "constructed T self \<Longrightarrow> train T self h tb = (r, self', h') \<Longrightarrow> constructed T self'"

section \<open>A small instance\<close>

text \<open>
  Stand-ins for the collaborators, to run the trainer on concrete batches. The baseline
  network has one parameter, at address 0, and predicts its value for every episode, in a
  column of shape \<open>[batch_size, 1]\<close>. The policy network has one parameter, at address 1,
  and reports its value as the log-probability of every logged slate, in a vector of shape
  \<open>[batch_size]\<close>. Automatic differentiation is replaced by the constant derivative 1 for
  both parameters, and Adam's rule by a plain gradient step.
\<close>

definition rows :: "ranking_input \<Rightarrow> nat" where
  "rows inp = (case shape (float_features inp) of [] \<Rightarrow> 0 | n # _ \<Rightarrow> n)"

definition example_baseline_net :: BaselineNet where
  "example_baseline_net =
     \<lparr>bn_parameters = [0],
      bn_forward = (\<lambda>\<sigma> inp. \<lparr>shape = [rows inp, 1], data = replicate (rows inp) (\<sigma> 0),
                                requires_grad = True\<rparr>)\<rparr>"

definition example_seq2slate_net :: Seq2SlateTransformerNet where
  "example_seq2slate_net =
     \<lparr>sn_parameters = [1],
      sn_log_probs = (\<lambda>\<sigma> inp mode. \<lparr>shape = [rows inp], data = replicate (rows inp) (\<sigma> 1),
                                       requires_grad = True\<rparr>)\<rparr>"

definition example_torch :: torch where
  "example_torch =
     \<lparr>autograd = (\<lambda>f \<sigma> a. if a < 2 then Some 1 else None),
      adam_update = (\<lambda>l ams st v g. (st, v - l * g))\<rparr>"

definition example_trainer :: "bool \<Rightarrow> trainer" where
  "example_trainer on =
     init example_seq2slate_net example_baseline_net \<lparr>on_policy = on\<rparr> 2 False"

definition example_heap :: heap where
  "example_heap = \<lparr>param_data = (\<lambda>a. if a = 1 then ln (1 / 2) else 0),
                   param_grad = (\<lambda>a. None)\<rparr>"

definition example_input :: "nat \<Rightarrow> tensor option \<Rightarrow> tensor option \<Rightarrow> ranking_input" where
  "example_input n reward probs =
     \<lparr>float_features = \<lparr>shape = [n, 1], data = replicate n 0, requires_grad = False\<rparr>,
      target_slate = [],
      slate_reward = reward,
      tgt_out_probs = probs\<rparr>"

definition example_batch :: "nat \<Rightarrow> tensor option \<Rightarrow> tensor option \<Rightarrow> training_batch" where
  "example_batch n reward probs =
     PreprocessedTrainingBatch (PreprocessedRankingInput (example_input n reward probs))"

text \<open>A tensor without dimensions, and a vector.\<close>

definition scalar :: "real \<Rightarrow> tensor" where
  "scalar x = \<lparr>shape = [], data = [x], requires_grad = False\<rparr>"

definition vector :: "real list \<Rightarrow> tensor" where
  "vector xs = \<lparr>shape = [length xs], data = xs, requires_grad = False\<rparr>"

text \<open>
  Three calls on a fresh trainer: on-policy on a batch of two episodes with rewards 3 and 5;
  off-policy on the same two episodes with behavior probabilities 1/4 and 1/2; and off-policy
  on a batch of one episode with reward 3 and behavior probability 1/4, both vectors of
  shape \<open>[1]\<close>. The second parameter starts at \<open>ln (1 / 2)\<close>, so that is the
  log-probability of each logged slate.
\<close>

definition on_policy_call :: "(py_error + train_result) \<times> trainer \<times> heap" where
  "on_policy_call =
     train example_torch (example_trainer True) example_heap
       (example_batch 2 (Some (vector [3, 5])) None)"

definition off_policy_pair_call :: "(py_error + train_result) \<times> trainer \<times> heap" where
  "off_policy_pair_call =
     train example_torch (example_trainer False) example_heap
       (example_batch 2 (Some (vector [3, 5])) (Some (vector [1 / 4, 1 / 2])))"

definition off_policy_call :: "(py_error + train_result) \<times> trainer \<times> heap" where
  "off_policy_call =
     train example_torch (example_trainer False) example_heap
       (example_batch 1 (Some (vector [3])) (Some (vector [1 / 4])))"





text \<open>The two phases of the on-policy call, one after the other.\<close>

definition example_baseline_phase :: "(py_error + tensor \<times> tensor) \<times> trainer \<times> heap" where
  "example_baseline_phase =
     train_baseline example_torch (example_trainer True) example_heap
       (example_input 2 (Some (vector [3, 5])) None) (vector [3, 5]) 2"

definition example_policy_phase :: "(py_error + tensor \<times> tensor \<times> tensor) \<times> trainer \<times> heap" where
  "example_policy_phase =
     train_seq2slate example_torch (fst (snd example_baseline_phase))
       (snd (snd example_baseline_phase))
       (example_input 2 (Some (vector [3, 5])) None) (vector [3, 5]) 2
       (squeeze (bn_forward example_baseline_net (param_data example_heap)
                   (example_input 2 (Some (vector [3, 5])) None)))"

section \<open>Facts about tensors\<close>

lemma squeeze_no_one: "1 \<notin> set (shape (squeeze t))"
  by (simp add: squeeze_def)

lemma prod_list_filter_one: "prod_list (filter (\<lambda>d. d \<noteq> Suc 0) s) = prod_list s"
  by (induction s) auto

lemma wf_squeeze: "wf_tensor t \<Longrightarrow> wf_tensor (squeeze t)"
  by (simp add: wf_tensor_def squeeze_def prod_list_filter_one)

lemma numel_squeeze: "numel (squeeze t) = numel t"
  by (simp add: numel_def squeeze_def prod_list_filter_one)

lemma broadcast_rev_same: "broadcast_rev s s = Some s"
  by (induction s) auto

lemma broadcast_shapes_same: "broadcast_shapes s s = Some s"
  by (simp add: broadcast_shapes_def broadcast_rev_same)

lemma concat_blocks:
  "k * n \<le> length xs \<Longrightarrow> concat (map (\<lambda>i. take n (drop (i * n) xs)) [0..<k]) = take (k * n) xs"
proof (induction k)
  case 0
  then show ?case by simp
next
  case (Suc k)
  then have "concat (map (\<lambda>i. take n (drop (i * n) xs)) [0..<k]) = take (k * n) xs"
    by simp
  moreover have "take (k * n) xs @ take n (drop (k * n) xs) = take (k * n + n) xs"
    by (simp add: take_add)
  moreover have "Suc k * n = k * n + n"
    by simp
  ultimately show ?case
    by (simp del: mult_Suc)
qed

lemma expand_same: "length xs = prod_list s \<Longrightarrow> expand s s xs = xs"
proof (induction s arbitrary: xs)
  case Nil
  then show ?case by simp
next
  case (Cons d ds)
  show ?case
  proof (cases "d = 1")
    case True
    with Cons show ?thesis by simp
  next
    case False
    have len: "length (take (prod_list ds) (drop (i * prod_list ds) xs)) = prod_list ds"
      if "i < d" for i
    proof -
      from that have "Suc i * prod_list ds \<le> d * prod_list ds"
        by (intro mult_le_mono1) simp
      with Cons.prems show ?thesis by simp
    qed
    have blocks:
      "map (\<lambda>i. expand ds ds (take (prod_list ds) (drop (i * prod_list ds) xs))) [0..<d]
        = map (\<lambda>i. take (prod_list ds) (drop (i * prod_list ds) xs)) [0..<d]"
      by (rule map_cong) (auto simp: Cons.IH len simp del: length_take)
    have "expand (d # ds) (d # ds) xs =
            concat (map (\<lambda>i. expand ds ds (take (prod_list ds) (drop (i * prod_list ds) xs)))
                        [0..<d])"
      using False by simp
    also have "\<dots> = concat (map (\<lambda>i. take (prod_list ds) (drop (i * prod_list ds) xs)) [0..<d])"
      by (simp only: blocks)
    also have "\<dots> = take (d * prod_list ds) xs"
      by (rule concat_blocks) (simp add: Cons.prems)
    also have "\<dots> = xs"
      using Cons.prems by simp
    finally show ?thesis .
  qed
qed

lemma tbinop_same_shape:
  assumes "shape a = shape b" "wf_tensor a" "wf_tensor b"
  shows "tbinop f a b =
           Some \<lparr>shape = shape b, data = map2 f (data a) (data b),
                 requires_grad = (requires_grad a \<or> requires_grad b)\<rparr>"
  using assms
  by (simp add: tbinop_def broadcast_shapes_same pad_shape_def expand_same wf_tensor_def)

lemma tbinop_same_shape_defined: "shape a = shape b \<Longrightarrow> tbinop f a b \<noteq> None"
  by (simp add: tbinop_def broadcast_shapes_same)

lemma shape_numel: "shape a = shape b \<Longrightarrow> numel a = numel b"
  by (simp add: numel_def)

lemma numel_detach: "numel (detach t) = numel t"
  by (simp add: numel_def detach_def)

lemma sum_list_nth: "length zs = n \<Longrightarrow> sum_list zs = (\<Sum>i<n. zs ! i)" for zs :: "real list"
  by (simp add: sum_list_sum_nth atLeast0LessThan)


lemma data_squeeze: "data (squeeze t) = data t"
  by (simp add: squeeze_def)

lemma wf_length: "wf_tensor t \<Longrightarrow> length (data t) = numel t"
  by (simp add: wf_tensor_def numel_def)

lemma concat_replicate_concat:
  "concat (replicate a (concat (replicate b xs))) = concat (replicate (a * b) xs)"
  by (induction a) (simp_all add: replicate_add)

lemma expand_ones:
  "expand (replicate (length s) 1) s xs = concat (replicate (prod_list s) xs)"
proof (induction s)
  case Nil
  show ?case by simp
next
  case (Cons t ts)
  then show ?case by (simp add: concat_replicate_concat)
qed

lemma map2_replicate: "length ys = n \<Longrightarrow> map2 f (replicate n c) ys = map (f c) ys"
  by (induction ys arbitrary: n) auto

lemma broadcast_rev_one: "broadcast_rev [Suc 0] ys = Some (if ys = [] then [Suc 0] else ys)"
  by (cases ys) auto

lemma broadcast_shapes_one:
  "broadcast_shapes [Suc 0] s = Some (if s = [] then [Suc 0] else s)"
  by (simp add: broadcast_shapes_def broadcast_rev_one)

lemma tbinop_one_left:
  assumes "wf_tensor t"
  shows "tbinop f \<lparr>shape = [1], data = [c], requires_grad = g\<rparr> t =
           Some \<lparr>shape = (if shape t = [] then [1] else shape t), data = map (f c) (data t),
                 requires_grad = (g \<or> requires_grad t)\<rparr>"
proof (cases "shape t = []")
  case True
  with assms have "length (data t) = 1" by (simp add: wf_tensor_def)
  then obtain y where "data t = [y]" by (cases "data t") auto
  with True show ?thesis
    by (simp add: tbinop_def broadcast_shapes_one pad_shape_def)
next
  case False
  let ?s = "shape t"
  from False have "pad_shape (length ?s) [Suc 0] = replicate (length ?s) (Suc 0)"
    by (cases ?s) (simp_all add: pad_shape_def replicate_append_same)
  moreover have "concat (replicate n [c]) = replicate n c" for n
    by (induction n) simp_all
  ultimately have e1: "expand (pad_shape (length ?s) [Suc 0]) ?s [c] = replicate (prod_list ?s) c"
    using expand_ones [of ?s "[c]"] by simp
  from assms have len: "length (data t) = prod_list ?s" by (simp add: wf_tensor_def)
  then have e2: "expand (pad_shape (length ?s) ?s) ?s (data t) = data t"
    by (simp add: pad_shape_def expand_same)
  from False len show ?thesis
    by (simp add: tbinop_def broadcast_shapes_one e1 e2 map2_replicate)
qed

lemma tbinop_one_scalar:
  assumes "shape a = [1]" "shape b = []"
  shows "tbinop f a b = Some \<lparr>shape = [1], data = map2 f (data a) (data b),
                              requires_grad = (requires_grad a \<or> requires_grad b)\<rparr>"
  using assms by (simp add: tbinop_def broadcast_shapes_def pad_shape_def)

lemma tbinop_same_shape_data:
  assumes "shape a = shape b" "length (data a) = n" "length (data b) = n" "prod_list (shape b) = n"
  shows "\<exists>t. tbinop f a b = Some t \<and> shape t = shape b \<and>
             data t = map2 f (data a) (data b) \<and> length (data t) = n \<and>
             requires_grad t = (requires_grad a \<or> requires_grad b)"
  using assms tbinop_same_shape [of a b f] by (simp add: wf_tensor_def)

lemma map2_map_left: "map2 f (map g xs) ys = map2 (\<lambda>x y. f (g x) y) xs ys"
  by (induction xs arbitrary: ys) (auto split: list.splits simp: zip_Cons1)

lemma detach_detach: "detach (detach l) = detach l"
  by (simp add: detach_def)

section \<open>Facts about the optimizer, the two phases and a call\<close>

lemma step_param_frame:
  "step_param T a (opt, h) = (opt', h') \<Longrightarrow>
     param_groups opt' = param_groups opt \<and> lr opt' = lr opt \<and> amsgrad opt' = amsgrad opt \<and>
     param_grad h' = param_grad h \<and> (\<forall>x. x \<noteq> a \<longrightarrow> param_data h' x = param_data h x)"
  by (auto simp: step_param_def split: option.splits prod.splits)

lemma fold_step_param_frame:
  "fold (step_param T) as (opt, h) = (opt', h') \<Longrightarrow>
     param_groups opt' = param_groups opt \<and> lr opt' = lr opt \<and> amsgrad opt' = amsgrad opt \<and>
     param_grad h' = param_grad h \<and> (\<forall>x. x \<notin> set as \<longrightarrow> param_data h' x = param_data h x)"
proof (induction as arbitrary: opt h)
  case Nil
  then show ?case by simp
next
  case (Cons a as)
  obtain opt1 h1 where s1: "step_param T a (opt, h) = (opt1, h1)"
    by (cases "step_param T a (opt, h)")
  with Cons.prems have "fold (step_param T) as (opt1, h1) = (opt', h')"
    by simp
  from Cons.IH [OF this] step_param_frame [OF s1] show ?case
    by simp
qed

lemma step_frame:
  "step T opt h = (opt', h') \<Longrightarrow>
     param_groups opt' = param_groups opt \<and> lr opt' = lr opt \<and> amsgrad opt' = amsgrad opt \<and>
     param_grad h' = param_grad h \<and>
     (\<forall>x. x \<notin> set (param_groups opt) \<longrightarrow> param_data h' x = param_data h x)"
  unfolding step_def by (rule fold_step_param_frame)

lemma zero_grad_data: "param_data (zero_grad opt h) = param_data h"
  by (simp add: zero_grad_def)

lemma backward_data: "backward T loss f h = Some h' \<Longrightarrow> param_data h' = param_data h"
  by (auto simp: backward_def split: if_splits)

lemma train_baseline_Inr:
  assumes "train_baseline T self h inp reward B = (Inr (b, bl), self', h')"
  shows "b = squeeze (bn_forward (baseline_net self) (param_data h) inp) \<and> B \<noteq> 0 \<and>
         (\<exists>d h2 opt. tsub b reward = Some d \<and> bl = scale (1 / real B) (tsum (tsquare d)) \<and>
            backward T bl (baseline_loss_fn (baseline_net self) inp reward B)
              (zero_grad (baseline_opt self) h) = Some h2 \<and>
            step T (baseline_opt self) h2 = (opt, h') \<and> self' = self\<lparr>baseline_opt := opt\<rparr>)"
proof (cases "B = 0")
  case True
  with assms show ?thesis by (simp add: train_baseline_def)
next
  case nz: False
  let ?b = "squeeze (bn_forward (baseline_net self) (param_data h) inp)"
  show ?thesis
  proof (cases "tsub ?b reward")
    case None
    with assms nz show ?thesis by (simp add: train_baseline_def)
  next
    case (Some d)
    let ?bl = "scale (1 / real B) (tsum (tsquare d))"
    show ?thesis
    proof (cases "backward T ?bl (baseline_loss_fn (baseline_net self) inp reward B)
                    (zero_grad (baseline_opt self) h)")
      case None
      with assms nz Some show ?thesis by (simp add: train_baseline_def)
    next
      case bw: (Some h2)
      obtain opt h3 where st: "step T (baseline_opt self) h2 = (opt, h3)"
        by (cases "step T (baseline_opt self) h2")
      with assms nz Some bw show ?thesis by (simp add: train_baseline_def)
    qed
  qed
qed

lemma train_baseline_Inl:
  assumes "train_baseline T self h inp reward B = (Inl e, self', h')"
  shows "self' = self \<and> param_data h' = param_data h \<and>
         (e = ZeroDivisionError \<or> e = RuntimeError)"
proof (cases "B = 0")
  case True
  with assms show ?thesis by (simp add: train_baseline_def)
next
  case nz: False
  let ?b = "squeeze (bn_forward (baseline_net self) (param_data h) inp)"
  show ?thesis
  proof (cases "tsub ?b reward")
    case None
    with assms nz show ?thesis by (simp add: train_baseline_def)
  next
    case (Some d)
    let ?bl = "scale (1 / real B) (tsum (tsquare d))"
    show ?thesis
    proof (cases "backward T ?bl (baseline_loss_fn (baseline_net self) inp reward B)
                    (zero_grad (baseline_opt self) h)")
      case None
      with assms nz Some show ?thesis by (auto simp: train_baseline_def zero_grad_data)
    next
      case bw: (Some h2)
      obtain opt h3 where st: "step T (baseline_opt self) h2 = (opt, h3)"
        by (cases "step T (baseline_opt self) h2")
      with assms nz Some bw show ?thesis by (simp add: train_baseline_def)
    qed
  qed
qed

lemma train_seq2slate_assert:
  "\<not> (shape (detach b0) = shape reward \<and>
       shape reward = shape (sn_log_probs (seq2slate_net self) (param_data h) inp LOG_PROB_MODE))
   \<or> \<not> requires_grad (sn_log_probs (seq2slate_net self) (param_data h) inp LOG_PROB_MODE)
   \<Longrightarrow> train_seq2slate T self h inp reward B b0 = (Inl AssertionError, self, h)"
  by (auto simp: train_seq2slate_def Let_def detach_def)

lemma train_seq2slate_past_assert:
  assumes "shape (detach b0) = shape reward"
    and "shape reward = shape (sn_log_probs (seq2slate_net self) (param_data h) inp LOG_PROB_MODE)"
    and "requires_grad (sn_log_probs (seq2slate_net self) (param_data h) inp LOG_PROB_MODE)"
  shows "train_seq2slate T self h inp reward B b0 =
     (let log_probs = sn_log_probs (seq2slate_net self) (param_data h) inp LOG_PROB_MODE;
          b = detach b0
      in case importance_sampling_of self inp log_probs of
              Inl e \<Rightarrow> (Inl e, self, h)
            | Inr importance_sampling \<Rightarrow>
                (case rl_loss_of importance_sampling log_probs reward b B of
                   None \<Rightarrow> (Inl RuntimeError, self, h)
                 | Some rl_loss \<Rightarrow>
                     (let h1 = zero_grad (rl_opt self) h
                      in case backward T rl_loss
                                (rl_loss_fn (seq2slate_net self) inp importance_sampling reward b
                                   B) h1 of
                           None \<Rightarrow> (Inl RuntimeError, self, h1)
                         | Some h2 \<Rightarrow>
                             (case step T (rl_opt self) h2 of
                                (opt, h3) \<Rightarrow>
                                  (Inr (log_probs, b, rl_loss), self\<lparr>rl_opt := opt\<rparr>, h3)))))"
  using assms by (simp add: train_seq2slate_def Let_def detach_def)

lemma train_seq2slate_Inr:
  assumes "train_seq2slate T self h inp reward B b0 = (Inr (lp, b, rl), self', h')"
  shows "lp = sn_log_probs (seq2slate_net self) (param_data h) inp LOG_PROB_MODE \<and>
         b = detach b0 \<and> shape b = shape reward \<and> shape reward = shape lp \<and>
         requires_grad lp \<and>
         (\<exists>w h2 opt. importance_sampling_of self inp lp = Inr w \<and>
            rl_loss_of w lp reward b B = Some rl \<and>
            backward T rl (rl_loss_fn (seq2slate_net self) inp w reward b B)
              (zero_grad (rl_opt self) h) = Some h2 \<and>
            step T (rl_opt self) h2 = (opt, h') \<and> self' = self\<lparr>rl_opt := opt\<rparr>)"
proof -
  let ?lp = "sn_log_probs (seq2slate_net self) (param_data h) inp LOG_PROB_MODE"
  have ok: "shape (detach b0) = shape reward" "shape reward = shape ?lp" "requires_grad ?lp"
    using assms train_seq2slate_assert [of b0 reward self h inp T B] by auto
  note eq = train_seq2slate_past_assert [OF ok, of T B]
  show ?thesis
  proof (cases "importance_sampling_of self inp ?lp")
    case (Inl e)
    with assms eq show ?thesis by simp
  next
    case (Inr w)
    show ?thesis
    proof (cases "rl_loss_of w ?lp reward (detach b0) B")
      case None
      with assms eq Inr show ?thesis by simp
    next
      case (Some rl0)
      show ?thesis
      proof (cases "backward T rl0 (rl_loss_fn (seq2slate_net self) inp w reward (detach b0) B)
                      (zero_grad (rl_opt self) h)")
        case None
        with assms eq Inr Some show ?thesis by simp
      next
        case bw: (Some h2)
        obtain opt h3 where st: "step T (rl_opt self) h2 = (opt, h3)"
          by (cases "step T (rl_opt self) h2")
        with assms eq Inr Some bw ok show ?thesis by simp
      qed
    qed
  qed
qed

lemma train_seq2slate_Inl:
  assumes "train_seq2slate T self h inp reward B b0 = (Inl e, self', h')"
  shows "self' = self \<and> param_data h' = param_data h"
proof -
  let ?lp = "sn_log_probs (seq2slate_net self) (param_data h) inp LOG_PROB_MODE"
  show ?thesis
  proof (cases "shape (detach b0) = shape reward \<and> shape reward = shape ?lp \<and> requires_grad ?lp")
    case False
    then have "train_seq2slate T self h inp reward B b0 = (Inl AssertionError, self, h)"
      by (intro train_seq2slate_assert) auto
    with assms show ?thesis by simp
  next
    case True
    then have ok: "shape (detach b0) = shape reward" "shape reward = shape ?lp" "requires_grad ?lp"
      by auto
    note eq = train_seq2slate_past_assert [OF ok, of T B]
    show ?thesis
    proof (cases "importance_sampling_of self inp ?lp")
      case (Inl e)
      with assms eq show ?thesis by simp
    next
      case (Inr w)
      show ?thesis
      proof (cases "rl_loss_of w ?lp reward (detach b0) B")
        case None
        with assms eq Inr show ?thesis by simp
      next
        case (Some rl0)
        show ?thesis
        proof (cases "backward T rl0 (rl_loss_fn (seq2slate_net self) inp w reward (detach b0) B)
                        (zero_grad (rl_opt self) h)")
          case None
          with assms eq Inr Some show ?thesis by (auto simp: zero_grad_data)
        next
          case bw: (Some h2)
          obtain opt h3 where st: "step T (rl_opt self) h2 = (opt, h3)"
            by (cases "step T (rl_opt self) h2")
          with assms eq Inr Some bw show ?thesis by simp
        qed
      qed
    qed
  qed
qed

lemma train_unfold:
  assumes "shape (float_features inp) = B # fs" "slate_reward inp = Some reward"
  shows "train T self h (PreprocessedTrainingBatch (PreprocessedRankingInput inp)) =
     (case train_baseline T self h inp reward B of
        (Inl e, self1, h1) \<Rightarrow> (Inl e, self1, h1)
      | (Inr (b0, baseline_loss), self1, h1) \<Rightarrow>
     (case train_seq2slate T self1 h1 inp reward B b0 of
        (Inl e, self2, h2) \<Rightarrow> (Inl e, self2, h2)
      | (Inr (log_probs, b, rl_loss), self2, h2) \<Rightarrow>
     (case tsub reward b of
        None \<Rightarrow> (Inl RuntimeError, self2, h2)
      | Some advantage \<Rightarrow>
          (Inr (detach log_probs, advantage, detach rl_loss, detach baseline_loss),
           self2\<lparr>minibatch := minibatch self2 + 1\<rparr>, h2))))"
  using assms by (simp add: train_def)

lemma train_Inr:
  assumes ok: "train T self h (PreprocessedTrainingBatch (PreprocessedRankingInput inp)) =
             (Inr (lp, adv, rl, bl), self', h')"
    and ff: "shape (float_features inp) = B # fs" and rw: "slate_reward inp = Some reward"
  shows "\<exists>b0 bl0 self1 h1 lp0 b rl0 self2.
           train_baseline T self h inp reward B = (Inr (b0, bl0), self1, h1) \<and>
           train_seq2slate T self1 h1 inp reward B b0 = (Inr (lp0, b, rl0), self2, h') \<and>
           tsub reward b = Some adv \<and> lp = detach lp0 \<and> rl = detach rl0 \<and> bl = detach bl0 \<and>
           self' = self2\<lparr>minibatch := minibatch self2 + 1\<rparr>"
proof -
  note eq = train_unfold [OF ff rw, of T self h]
  obtain r1 self1 h1 where p1: "train_baseline T self h inp reward B = (r1, self1, h1)"
    by (cases "train_baseline T self h inp reward B")
  show ?thesis
  proof (cases r1)
    case (Inl e)
    with ok eq p1 show ?thesis by simp
  next
    case (Inr bb)
    obtain b0 bl0 where bb: "bb = (b0, bl0)" by (cases bb)
    obtain r2 self2 h2 where p2: "train_seq2slate T self1 h1 inp reward B b0 = (r2, self2, h2)"
      by (cases "train_seq2slate T self1 h1 inp reward B b0")
    show ?thesis
    proof (cases r2)
      case (Inl e)
      with ok eq p1 Inr bb p2 show ?thesis by simp
    next
      case r2: (Inr t)
      obtain lp0 b rl0 where t: "t = (lp0, b, rl0)" by (cases t)
      show ?thesis
      proof (cases "tsub reward b")
        case None
        with ok eq p1 Inr bb p2 r2 t show ?thesis by simp
      next
        case (Some a)
        with ok eq p1 Inr bb p2 r2 t show ?thesis by auto
      qed
    qed
  qed
qed

lemma train_Inl:
  assumes fl: "train T self h tb = (Inl e, self', h')"
  shows "minibatch self' = minibatch self \<and> rl_opt self' = rl_opt self \<and>
         parameters self' = parameters self \<and> use_gpu self' = use_gpu self \<and>
         seq2slate_net self' = seq2slate_net self \<and> baseline_net self' = baseline_net self \<and>
         minibatch_size self' = minibatch_size self"
proof (cases tb)
  case OtherBatch
  with fl show ?thesis by (simp add: train_def)
next
  case (PreprocessedTrainingBatch ti)
  show ?thesis
  proof (cases ti)
    case OtherInput
    with fl PreprocessedTrainingBatch show ?thesis by (simp add: train_def)
  next
    case (PreprocessedRankingInput inp)
    show ?thesis
    proof (cases "shape (float_features inp)")
      case Nil
      with fl PreprocessedTrainingBatch PreprocessedRankingInput show ?thesis
        by (simp add: train_def)
    next
      case ff: (Cons B fs)
      show ?thesis
      proof (cases "slate_reward inp")
        case None
        with fl PreprocessedTrainingBatch PreprocessedRankingInput ff show ?thesis
          by (simp add: train_def)
      next
        case (Some reward)
        note eq = train_unfold [OF ff Some, of T self h]
        obtain r1 self1 h1 where p1: "train_baseline T self h inp reward B = (r1, self1, h1)"
          by (cases "train_baseline T self h inp reward B")
        show ?thesis
        proof (cases r1)
          case (Inl e1)
          with p1 have "self1 = self" using train_baseline_Inl by blast
          with fl eq p1 Inl PreprocessedTrainingBatch PreprocessedRankingInput show ?thesis
            by simp
        next
          case (Inr bb)
          obtain b0 bl0 where bb: "bb = (b0, bl0)" by (cases bb)
          from train_baseline_Inr [OF p1 [unfolded Inr bb]]
          obtain opt where s1: "self1 = self\<lparr>baseline_opt := opt\<rparr>" by blast
          obtain r2 self2 h2 where
            p2: "train_seq2slate T self1 h1 inp reward B b0 = (r2, self2, h2)"
            by (cases "train_seq2slate T self1 h1 inp reward B b0")
          show ?thesis
          proof (cases r2)
            case (Inl e2)
            with p2 have "self2 = self1" using train_seq2slate_Inl by blast
            with fl eq p1 Inr bb p2 Inl s1 PreprocessedTrainingBatch PreprocessedRankingInput
            show ?thesis by auto
          next
            case r2: (Inr t)
            obtain lp0 b rl0 where t: "t = (lp0, b, rl0)" by (cases t)
            from train_seq2slate_Inr [OF p2 [unfolded r2 t]]
            have "shape b = shape reward" by blast
            then have "shape reward = shape b" by simp
            then have "tsub reward b \<noteq> None"
              unfolding tsub_def by (rule tbinop_same_shape_defined)
            then obtain a where "tsub reward b = Some a" by blast
            with fl eq p1 Inr bb p2 r2 t PreprocessedTrainingBatch PreprocessedRankingInput
            show ?thesis by simp
          qed
        qed
      qed
    qed
  qed
qed

lemma train_Inr_batch:
  assumes "train T self h tb = (Inr res, self', h')"
  shows "\<exists>inp B fs reward. tb = PreprocessedTrainingBatch (PreprocessedRankingInput inp) \<and>
           shape (float_features inp) = B # fs \<and> slate_reward inp = Some reward"
proof (cases tb)
  case OtherBatch
  with assms show ?thesis by (simp add: train_def)
next
  case (PreprocessedTrainingBatch ti)
  show ?thesis
  proof (cases ti)
    case OtherInput
    with assms PreprocessedTrainingBatch show ?thesis by (simp add: train_def)
  next
    case (PreprocessedRankingInput inp)
    show ?thesis
    proof (cases "shape (float_features inp)")
      case Nil
      with assms PreprocessedTrainingBatch PreprocessedRankingInput show ?thesis
        by (simp add: train_def)
    next
      case ff: (Cons B fs)
      show ?thesis
      proof (cases "slate_reward inp")
        case None
        with assms PreprocessedTrainingBatch PreprocessedRankingInput ff show ?thesis
          by (simp add: train_def)
      next
        case (Some reward)
        with PreprocessedTrainingBatch PreprocessedRankingInput ff show ?thesis
          by simp
      qed
    qed
  qed
qed

lemma train_Inr_state:
  assumes ok: "train T self h tb = (Inr res, self', h')"
  shows "\<exists>opt1 opt2. self' = self\<lparr>baseline_opt := opt1, rl_opt := opt2,
                                   minibatch := minibatch self + 1\<rparr>"
proof -
  from train_Inr_batch [OF ok] obtain inp B fs reward where
    tb: "tb = PreprocessedTrainingBatch (PreprocessedRankingInput inp)" and
    ff: "shape (float_features inp) = B # fs" and rw: "slate_reward inp = Some reward"
    by blast
  obtain lp adv rl bl where res: "res = (lp, adv, rl, bl)" by (cases res)
  from train_Inr [OF ok [unfolded tb res] ff rw]
  obtain b0 bl0 self1 h1 lp0 b rl0 self2 where
    p1: "train_baseline T self h inp reward B = (Inr (b0, bl0), self1, h1)" and
    p2: "train_seq2slate T self1 h1 inp reward B b0 = (Inr (lp0, b, rl0), self2, h')" and
    s': "self' = self2\<lparr>minibatch := minibatch self2 + 1\<rparr>"
    by blast
  from train_baseline_Inr [OF p1] obtain opt1 where s1: "self1 = self\<lparr>baseline_opt := opt1\<rparr>"
    by blast
  from train_seq2slate_Inr [OF p2] obtain opt2 where s2: "self2 = self1\<lparr>rl_opt := opt2\<rparr>"
    by blast
  from s' s1 s2 show ?thesis by auto
qed

lemma train_counter:
  "minibatch (fst (snd (train T self h tb))) =
     minibatch self + (case fst (train T self h tb) of Inl e \<Rightarrow> 0 | Inr res \<Rightarrow> 1)"
proof -
  obtain r self' h' where t: "train T self h tb = (r, self', h')"
    by (cases "train T self h tb")
  show ?thesis
  proof (cases r)
    case (Inl e)
    with t train_Inl [of T self h tb e self' h'] show ?thesis by simp
  next
    case (Inr res)
    with t train_Inr_state [of T self h tb res self' h'] show ?thesis by auto
  qed
qed

lemma train_all_counter:
  "minibatch (fst (train_all T s tbs)) = minibatch (fst s) + succeeded T s tbs"
proof (induction tbs arbitrary: s)
  case Nil
  show ?case by simp
next
  case (Cons tb tbs)
  have "minibatch (fst (train_all T s (tb # tbs))) =
          minibatch (fst (snd (train T (fst s) (snd s) tb)))
            + succeeded T (snd (train T (fst s) (snd s) tb)) tbs"
    by (simp add: Cons.IH)
  also have "\<dots> = minibatch (fst s) + succeeded T s (tb # tbs)"
    by (simp add: train_counter)
  finally show ?case .
qed

lemma importance_sampling_of_baseline_opt:
  "importance_sampling_of (self\<lparr>baseline_opt := opt\<rparr>) inp lp = importance_sampling_of self inp lp"
  by (simp add: importance_sampling_of_def)

lemma train_success:
  assumes ok: "train T self h (PreprocessedTrainingBatch (PreprocessedRankingInput inp)) =
             (Inr (lp, adv, rl, bl), self', h')"
    and ff: "shape (float_features inp) = B # fs" and rw: "slate_reward inp = Some reward"
  obtains d bl0 self1 h1 lp0 w rl0 where
    "train_baseline T self h inp reward B =
       (Inr (squeeze (bn_forward (baseline_net self) (param_data h) inp), bl0), self1, h1)"
    "B \<noteq> 0"
    "tsub (squeeze (bn_forward (baseline_net self) (param_data h) inp)) reward = Some d"
    "bl0 = scale (1 / real B) (tsum (tsquare d))"
    "bl = detach bl0"
    "shape (squeeze (bn_forward (baseline_net self) (param_data h) inp)) = shape reward"
    "lp0 = sn_log_probs (seq2slate_net self) (param_data h1) inp LOG_PROB_MODE"
    "lp = detach lp0"
    "shape lp0 = shape reward"
    "requires_grad lp0"
    "importance_sampling_of self inp lp0 = Inr w"
    "rl_loss_of w lp0 reward (detach (squeeze (bn_forward (baseline_net self) (param_data h) inp)))
       B = Some rl0"
    "rl = detach rl0"
    "tsub reward (detach (squeeze (bn_forward (baseline_net self) (param_data h) inp))) = Some adv"
proof -
  let ?b = "squeeze (bn_forward (baseline_net self) (param_data h) inp)"
  from train_Inr [OF ok ff rw]
  obtain b0 bl0 self1 h1 lp0 b rl0 self2 where
    p1: "train_baseline T self h inp reward B = (Inr (b0, bl0), self1, h1)" and
    p2: "train_seq2slate T self1 h1 inp reward B b0 = (Inr (lp0, b, rl0), self2, h')" and
    av: "tsub reward b = Some adv" and r: "lp = detach lp0" "rl = detach rl0" "bl = detach bl0"
    by blast
  from train_baseline_Inr [OF p1] obtain d opt where
    b0: "b0 = ?b" and nz: "B \<noteq> 0" and d: "tsub b0 reward = Some d"
    and bl0: "bl0 = scale (1 / real B) (tsum (tsquare d))"
    and s1: "self1 = self\<lparr>baseline_opt := opt\<rparr>"
    by blast
  from train_seq2slate_Inr [OF p2] obtain w where
    lp0: "lp0 = sn_log_probs (seq2slate_net self1) (param_data h1) inp LOG_PROB_MODE"
    and b: "b = detach b0" and sh: "shape b = shape reward" "shape reward = shape lp0"
    and rg: "requires_grad lp0"
    and w: "importance_sampling_of self1 inp lp0 = Inr w"
    and rl0: "rl_loss_of w lp0 reward b B = Some rl0"
    by blast
  from sh b have shb: "shape ?b = shape reward"
    by (simp add: b0 detach_def)
  show thesis
  proof (rule that [of bl0 self1 h1 d lp0 w rl0])
    show "train_baseline T self h inp reward B = (Inr (?b, bl0), self1, h1)"
      using p1 b0 by simp
    show "B \<noteq> 0" by (rule nz)
    show "tsub ?b reward = Some d" using d b0 by simp
    show "bl0 = scale (1 / real B) (tsum (tsquare d))" by (rule bl0)
    show "bl = detach bl0" by (rule r)
    show "shape ?b = shape reward" by (rule shb)
    show "lp0 = sn_log_probs (seq2slate_net self) (param_data h1) inp LOG_PROB_MODE"
      using lp0 s1 by simp
    show "lp = detach lp0" by (rule r)
    show "shape lp0 = shape reward" using sh by simp
    show "requires_grad lp0" by (rule rg)
    show "importance_sampling_of self inp lp0 = Inr w"
      using w s1 by (simp add: importance_sampling_of_baseline_opt)
    show "rl_loss_of w lp0 reward (detach ?b) B = Some rl0"
      using rl0 b b0 by simp
    show "rl = detach rl0" by (rule r)
    show "tsub reward (detach ?b) = Some adv"
      using av b b0 by simp
  qed
qed

lemma rl_loss_of_same_shape:
  assumes sw: "shape w = shape reward" and sl: "shape lp0 = shape reward"
    and sb: "shape b = shape reward"
    and n: "prod_list (shape reward) = n"
    and lw: "length (data w) = n" and ll: "length (data lp0) = n"
    and lr: "length (data reward) = n" and lb: "length (data b) = n"
  shows "\<exists>rl0. rl_loss_of w lp0 reward b B = Some rl0 \<and> shape rl0 = [] \<and>
           data rl0 = [(\<Sum>i<n. - (data w ! i) * data lp0 ! i * (data reward ! i - data b ! i))
                        / real B]"
proof -
  have "shape (tneg w) = shape lp0" "length (data (tneg w)) = n"
    using sw sl lw by (simp_all add: tneg_def tmap_def)
  from tbinop_same_shape_data [OF this(1) this(2) ll, of "(*)"] n sl
  obtain m where m: "tmul (tneg w) lp0 = Some m" and sm: "shape m = shape reward"
    and dm: "data m = map2 (*) (data (tneg w)) (data lp0)" and lm: "length (data m) = n"
    by (auto simp: tmul_def)
  from tbinop_same_shape_data [OF sb [symmetric] lr lb, of "\<lambda>x y. x - y"] n sb
  obtain a where a: "tsub reward b = Some a" and sa: "shape a = shape reward"
    and da: "data a = map2 (\<lambda>x y. x - y) (data reward) (data b)" and la: "length (data a) = n"
    by (auto simp: tsub_def)
  have "shape m = shape a" using sm sa by simp
  from tbinop_same_shape_data [OF this lm la, of "(*)"] n sa
  obtain t where t: "tmul m a = Some t" and dt: "data t = map2 (*) (data m) (data a)"
    and lt: "length (data t) = n"
    by (auto simp: tmul_def)
  have "sum_list (data t) = (\<Sum>i<n. data t ! i)"
    using lt by (rule sum_list_nth)
  also have "\<dots> = (\<Sum>i<n. - (data w ! i) * data lp0 ! i * (data reward ! i - data b ! i))"
    by (rule sum.cong) (simp_all add: dt dm da lw ll lr lb tneg_def tmap_def)
  finally have "sum_list (data t) =
      (\<Sum>i<n. - (data w ! i) * data lp0 ! i * (data reward ! i - data b ! i))" .
  with m a t show ?thesis
    by (simp add: rl_loss_of_def scale_def tsum_def tmap_def)
qed

lemma rl_loss_of_one:
  assumes sl: "shape lp0 = shape reward" and sb: "shape b = shape reward"
    and n: "prod_list (shape reward) = n"
    and ll: "length (data lp0) = n"
    and lr: "length (data reward) = n" and lb: "length (data b) = n"
  shows "\<exists>rl0. rl_loss_of float_tensor_one lp0 reward b B = Some rl0 \<and> shape rl0 = [] \<and>
           data rl0 = [(\<Sum>i<n. - 1 * data lp0 ! i * (data reward ! i - data b ! i)) / real B]"
proof -
  have wl: "wf_tensor lp0" using ll n sl by (simp add: wf_tensor_def)
  have "tneg float_tensor_one = \<lparr>shape = [1], data = [- 1], requires_grad = False\<rparr>"
    by (simp add: tneg_def tmap_def float_tensor_one_def)
  with tbinop_one_left [OF wl, of "(*)" "- 1" False]
  obtain m where m: "tmul (tneg float_tensor_one) lp0 = Some m"
    and sm: "shape m = (if shape lp0 = [] then [1] else shape lp0)"
    and dm: "data m = map ((*) (- 1)) (data lp0)"
    by (auto simp: tmul_def)
  from tbinop_same_shape_data [OF sb [symmetric] lr lb, of "\<lambda>x y. x - y"] n sb
  obtain a where a: "tsub reward b = Some a" and sa: "shape a = shape reward"
    and da: "data a = map2 (\<lambda>x y. x - y) (data reward) (data b)" and la: "length (data a) = n"
    by (auto simp: tsub_def)
  have lm: "length (data m) = n" using dm ll by simp
  have "\<exists>t. tmul m a = Some t \<and> data t = map2 (*) (data m) (data a)"
  proof (cases "shape lp0 = []")
    case True
    with sm sa sl have "shape m = [1]" "shape a = []" by simp_all
    from tbinop_one_scalar [OF this, of "(*)"] show ?thesis by (simp add: tmul_def)
  next
    case False
    with sm sa sl have "shape m = shape a" by simp
    from tbinop_same_shape_data [OF this lm la, of "(*)"] n sa show ?thesis
      by (auto simp: tmul_def)
  qed
  then obtain t where t: "tmul m a = Some t" and dt: "data t = map2 (*) (data m) (data a)"
    by blast
  have lt: "length (data t) = n" using dt lm la by simp
  have "sum_list (data t) = (\<Sum>i<n. data t ! i)"
    using lt by (rule sum_list_nth)
  also have "\<dots> = (\<Sum>i<n. - 1 * data lp0 ! i * (data reward ! i - data b ! i))"
    by (rule sum.cong) (simp_all add: dt dm da ll lr lb)
  finally have "sum_list (data t) =
      (\<Sum>i<n. - 1 * data lp0 ! i * (data reward ! i - data b ! i))" .
  with m a t show ?thesis
    by (simp add: rl_loss_of_def scale_def tsum_def tmap_def)
qed

lemma importance_sampling_of_detach:
  "importance_sampling_of self inp (detach l) = importance_sampling_of self inp l"
  unfolding importance_sampling_of_def detach_detach by (rule refl)

lemma importance_sampling_of_off_policy:
  assumes off: "\<not> on_policy (parameters self)" and pr: "tgt_out_probs inp = Some p"
    and sp: "shape p = shape l" and wl: "wf_tensor l" and wp: "wf_tensor p"
  shows "importance_sampling_of self inp l =
           Inr \<lparr>shape = shape p, data = map2 (\<lambda>x q. exp x / q) (data l) (data p),
                requires_grad = requires_grad p\<rparr>"
proof -
  have "shape (texp (detach l)) = shape p" "wf_tensor (texp (detach l))"
    using sp wl by (simp_all add: texp_def tmap_def detach_def wf_tensor_def)
  from tbinop_same_shape [OF this wp, of "(/)"] off pr show ?thesis
    by (simp add: importance_sampling_of_def tdiv_def texp_def tmap_def detach_def map2_map_left)
qed

lemma train_baseline_indep:
  assumes "\<forall>\<sigma>. bn_forward (baseline_net self) \<sigma> inp' = bn_forward (baseline_net self) \<sigma> inp"
  shows "train_baseline T self h inp' reward B = train_baseline T self h inp reward B"
proof -
  have f: "bn_forward (baseline_net self) \<sigma> inp' = bn_forward (baseline_net self) \<sigma> inp" for \<sigma>
    using assms by simp
  have l: "baseline_loss_fn (baseline_net self) inp' reward B =
           baseline_loss_fn (baseline_net self) inp reward B"
    by (intro ext) (simp add: baseline_loss_fn_def f)
  show ?thesis
    unfolding train_baseline_def f l by (rule refl)
qed

lemma importance_sampling_of_on_policy:
  "on_policy (parameters self) \<Longrightarrow> importance_sampling_of self inp l = Inr float_tensor_one"
  by (simp add: importance_sampling_of_def cuda_def)

lemma train_seq2slate_indep:
  assumes on: "on_policy (parameters self)"
    and sn: "\<forall>\<sigma> m. sn_log_probs (seq2slate_net self) \<sigma> inp' m =
                    sn_log_probs (seq2slate_net self) \<sigma> inp m"
  shows "train_seq2slate T self h inp' reward B b0 = train_seq2slate T self h inp reward B b0"
proof -
  have f: "sn_log_probs (seq2slate_net self) \<sigma> inp' m =
           sn_log_probs (seq2slate_net self) \<sigma> inp m" for \<sigma> m
    using sn by simp
  have l: "rl_loss_fn (seq2slate_net self) inp' w reward b B =
           rl_loss_fn (seq2slate_net self) inp w reward b B" for w b
    by (intro ext) (simp add: rl_loss_fn_def f)
  show ?thesis
    unfolding train_seq2slate_def f l importance_sampling_of_on_policy [OF on] by (rule refl)
qed

lemma train_indep:
  assumes on: "on_policy (parameters self)"
    and bn: "\<forall>\<sigma>. bn_forward (baseline_net self) \<sigma> inp' = bn_forward (baseline_net self) \<sigma> inp"
    and sn: "\<forall>\<sigma> m. sn_log_probs (seq2slate_net self) \<sigma> inp' m =
                    sn_log_probs (seq2slate_net self) \<sigma> inp m"
    and ff: "float_features inp' = float_features inp"
    and rw: "slate_reward inp' = slate_reward inp"
  shows "train T self h (PreprocessedTrainingBatch (PreprocessedRankingInput inp')) =
         train T self h (PreprocessedTrainingBatch (PreprocessedRankingInput inp))"
proof (cases "shape (float_features inp)")
  case Nil
  with ff show ?thesis by (simp add: train_def)
next
  case sh: (Cons B fs)
  show ?thesis
  proof (cases "slate_reward inp")
    case None
    with ff rw sh show ?thesis by (simp add: train_def)
  next
    case (Some reward)
    from sh ff have sh': "shape (float_features inp') = B # fs" by simp
    from Some rw have rw': "slate_reward inp' = Some reward" by simp
    note e = train_unfold [OF sh Some, of T self h] and e' = train_unfold [OF sh' rw', of T self h]
    note b = train_baseline_indep [OF bn, of T h reward B]
    obtain r1 self1 h1 where p1: "train_baseline T self h inp reward B = (r1, self1, h1)"
      by (cases "train_baseline T self h inp reward B")
    show ?thesis
    proof (cases r1)
      case (Inl e1)
      with e e' b p1 show ?thesis by simp
    next
      case (Inr bb)
      obtain b0 bl0 where bb: "bb = (b0, bl0)" by (cases bb)
      from train_baseline_Inr [OF p1 [unfolded Inr bb]]
      obtain opt where s1: "self1 = self\<lparr>baseline_opt := opt\<rparr>" by blast
      have "train_seq2slate T self1 h1 inp' reward B b0 =
            train_seq2slate T self1 h1 inp reward B b0"
        by (rule train_seq2slate_indep) (simp_all add: s1 on sn)
      with e e' b p1 Inr bb show ?thesis by simp
    qed
  qed
qed

lemma train_baseline_frame:
  assumes p: "train_baseline T self h inp reward B = (r, self1, h1)"
  shows "(\<exists>opt. self1 = self\<lparr>baseline_opt := opt\<rparr> \<and>
                param_groups opt = param_groups (baseline_opt self)) \<and>
         (\<forall>a. a \<notin> set (param_groups (baseline_opt self)) \<longrightarrow> param_data h1 a = param_data h a)"
proof (cases r)
  case (Inl e)
  from train_baseline_Inl [OF p [unfolded Inl]]
  have "self1 = self\<lparr>baseline_opt := baseline_opt self\<rparr>" "param_data h1 = param_data h"
    by simp_all
  then show ?thesis by metis
next
  case (Inr bb)
  obtain b bl where bb: "bb = (b, bl)" by (cases bb)
  from train_baseline_Inr [OF p [unfolded Inr bb]] obtain h2 opt where
    bw: "backward T bl (baseline_loss_fn (baseline_net self) inp reward B)
           (zero_grad (baseline_opt self) h) = Some h2"
    and st: "step T (baseline_opt self) h2 = (opt, h1)"
    and s1: "self1 = self\<lparr>baseline_opt := opt\<rparr>"
    by blast
  have "param_data h2 = param_data h"
    using backward_data [OF bw] by (simp add: zero_grad_data)
  with step_frame [OF st] s1 show ?thesis by auto
qed

lemma train_seq2slate_frame:
  assumes p: "train_seq2slate T self h inp reward B b0 = (r, self2, h2)"
  shows "(\<exists>opt. self2 = self\<lparr>rl_opt := opt\<rparr> \<and> param_groups opt = param_groups (rl_opt self)) \<and>
         (\<forall>a. a \<notin> set (param_groups (rl_opt self)) \<longrightarrow> param_data h2 a = param_data h a)"
proof (cases r)
  case (Inl e)
  from train_seq2slate_Inl [OF p [unfolded Inl]]
  have "self2 = self\<lparr>rl_opt := rl_opt self\<rparr>" "param_data h2 = param_data h"
    by simp_all
  then show ?thesis by metis
next
  case (Inr t)
  obtain lp b rl where t: "t = (lp, b, rl)" by (cases t)
  from train_seq2slate_Inr [OF p [unfolded Inr t]] obtain w h3 opt where
    bw: "backward T rl (rl_loss_fn (seq2slate_net self) inp w reward b B)
           (zero_grad (rl_opt self) h) = Some h3"
    and st: "step T (rl_opt self) h3 = (opt, h2)"
    and s2: "self2 = self\<lparr>rl_opt := opt\<rparr>"
    by blast
  have "param_data h3 = param_data h"
    using backward_data [OF bw] by (simp add: zero_grad_data)
  with step_frame [OF st] s2 show ?thesis by auto
qed

lemma train_phases:
  assumes t: "train T self h tb = (r, self', h')"
  shows "(self' = self \<and> h' = h) \<or>
         (\<exists>inp reward B r1 self1 h1.
            train_baseline T self h inp reward B = (r1, self1, h1) \<and>
            ((self' = self1 \<and> h' = h1) \<or>
             (\<exists>b0 r2 self2. train_seq2slate T self1 h1 inp reward B b0 = (r2, self2, h') \<and>
                (self' = self2 \<or> self' = self2\<lparr>minibatch := minibatch self2 + 1\<rparr>))))"
proof (cases tb)
  case OtherBatch
  with t show ?thesis by (simp add: train_def)
next
  case (PreprocessedTrainingBatch ti)
  show ?thesis
  proof (cases ti)
    case OtherInput
    with t PreprocessedTrainingBatch show ?thesis by (simp add: train_def)
  next
    case (PreprocessedRankingInput inp)
    show ?thesis
    proof (cases "shape (float_features inp)")
      case Nil
      with t PreprocessedTrainingBatch PreprocessedRankingInput show ?thesis
        by (simp add: train_def)
    next
      case ff: (Cons B fs)
      show ?thesis
      proof (cases "slate_reward inp")
        case None
        with t PreprocessedTrainingBatch PreprocessedRankingInput ff show ?thesis
          by (simp add: train_def)
      next
        case (Some reward)
        note eq = train_unfold [OF ff Some, of T self h]
        obtain r1 self1 h1 where p1: "train_baseline T self h inp reward B = (r1, self1, h1)"
          by (cases "train_baseline T self h inp reward B")
        show ?thesis
        proof (cases r1)
          case (Inl e1)
          with t eq p1 PreprocessedTrainingBatch PreprocessedRankingInput
          have "self' = self1 \<and> h' = h1" by simp
          with p1 show ?thesis by blast
        next
          case (Inr bb)
          obtain b0 bl0 where bb: "bb = (b0, bl0)" by (cases bb)
          obtain r2 self2 h2 where
            p2: "train_seq2slate T self1 h1 inp reward B b0 = (r2, self2, h2)"
            by (cases "train_seq2slate T self1 h1 inp reward B b0")
          have "h' = h2 \<and> (self' = self2 \<or> self' = self2\<lparr>minibatch := minibatch self2 + 1\<rparr>)"
          proof (cases r2)
            case (Inl e2)
            with t eq p1 Inr bb p2 PreprocessedTrainingBatch PreprocessedRankingInput
            show ?thesis by simp
          next
            case r2: (Inr u)
            obtain lp0 b rl0 where u: "u = (lp0, b, rl0)" by (cases u)
            show ?thesis
            proof (cases "tsub reward b")
              case None
              with t eq p1 Inr bb p2 r2 u PreprocessedTrainingBatch PreprocessedRankingInput
              show ?thesis by simp
            next
              case (Some a)
              with t eq p1 Inr bb p2 r2 u PreprocessedTrainingBatch PreprocessedRankingInput
              show ?thesis by auto
            qed
          qed
          with p1 p2 show ?thesis by blast
        qed
      qed
    qed
  qed
qed

lemma train_frame:
  assumes t: "train T self h tb = (r, self', h')"
  shows "seq2slate_net self' = seq2slate_net self \<and> baseline_net self' = baseline_net self \<and>
         param_groups (baseline_opt self') = param_groups (baseline_opt self) \<and>
         param_groups (rl_opt self') = param_groups (rl_opt self) \<and>
         (\<forall>a. a \<notin> set (param_groups (baseline_opt self)) \<union> set (param_groups (rl_opt self)) \<longrightarrow>
              param_data h' a = param_data h a)"
proof -
  from train_phases [OF t] consider
    (same) "self' = self" "h' = h"
  | (baseline) inp reward B r1 where "train_baseline T self h inp reward B = (r1, self', h')"
  | (both) inp reward B r1 self1 h1 b0 r2 self2 where
      "train_baseline T self h inp reward B = (r1, self1, h1)"
      "train_seq2slate T self1 h1 inp reward B b0 = (r2, self2, h')"
      "self' = self2 \<or> self' = self2\<lparr>minibatch := minibatch self2 + 1\<rparr>"
    by blast
  then show ?thesis
  proof cases
    case same
    then show ?thesis by simp
  next
    case baseline
    from train_baseline_frame [OF baseline] show ?thesis by auto
  next
    case both
    from train_baseline_frame [OF both(1)] obtain opt1 where
      s1: "self1 = self\<lparr>baseline_opt := opt1\<rparr>"
      and g1: "param_groups opt1 = param_groups (baseline_opt self)"
      and f1: "\<forall>a. a \<notin> set (param_groups (baseline_opt self)) \<longrightarrow> param_data h1 a = param_data h a"
      by blast
    from train_seq2slate_frame [OF both(2)] obtain opt2 where
      s2: "self2 = self1\<lparr>rl_opt := opt2\<rparr>"
      and g2: "param_groups opt2 = param_groups (rl_opt self1)"
      and f2: "\<forall>a. a \<notin> set (param_groups (rl_opt self1)) \<longrightarrow> param_data h' a = param_data h1 a"
      by blast
    from both(3) s1 s2 g1 g2 f1 f2 show ?thesis by auto
  qed
qed

lemma constructed_bound:
  "constructed T self \<Longrightarrow>
     param_groups (baseline_opt self) = bn_parameters (baseline_net self) \<and>
     param_groups (rl_opt self) = sn_parameters (seq2slate_net self)"
proof (induction rule: constructed.induct)
  case (constructed_init seq2slate_net0 baseline_net0 parameters0 n g)
  show ?case by (simp add: init_def new_Adam_def)
next
  case (constructed_train self h tb r self' h')
  from train_frame [OF constructed_train.hyps(2)] constructed_train.IH show ?case
    by simp
qed

text \<open>
  \<^verbatim>\<open>squeeze()\<close> leaves no dimension of size 1, so line 63 cannot hold for a
  \<^verbatim>\<open>slate_reward\<close> of shape \<open>[1]\<close>: such a call raises. A batch of one episode passes
  only with a reward without dimensions.
\<close>

lemma reward_of_shape_one_is_rejected:
  assumes rw: "slate_reward inp = Some reward" and s1: "shape reward = [1]"
  shows "\<exists>e self' h'.
           train T self h (PreprocessedTrainingBatch (PreprocessedRankingInput inp)) =
             (Inl e, self', h')"
proof -
  let ?tb = "PreprocessedTrainingBatch (PreprocessedRankingInput inp)"
  obtain r self' h' where t: "train T self h ?tb = (r, self', h')"
    by (cases "train T self h ?tb")
  show ?thesis
  proof (cases r)
    case (Inl e)
    with t show ?thesis by simp
  next
    case (Inr res)
    obtain lp adv rl bl where res: "res = (lp, adv, rl, bl)" by (cases res)
    from train_Inr_batch [OF t [unfolded Inr]] rw obtain B fs where
      ff: "shape (float_features inp) = B # fs"
      by auto
    from t [unfolded Inr res] ff rw
    have "shape (squeeze (bn_forward (baseline_net self) (param_data h) inp)) = shape reward"
      by (rule train_success)
    with s1 squeeze_no_one [of "bn_forward (baseline_net self) (param_data h) inp"]
    show ?thesis by simp
  qed
qed

text \<open>
  Off-policy, when \<^verbatim>\<open>train\<close> returns, the importance weight of each episode is the
  exponential of its log-probability divided by its behavior probability, and the returned
  policy loss is the mean over the batch of \<open>- weight\<^sub>i * log_probs\<^sub>i * (reward\<^sub>i - b\<^sub>i)\<close>.
  The behavior probabilities have the shape of the reward and none is zero (the quotient by
  zero of the reals is not that of floats); the tensors are well formed and the baseline
  network predicts one value per row. The log-probabilities are those returned, which are
  the policy network's at the parameter values the baseline phase has left.
\<close>

lemma off_policy_loss_formula:
  assumes ok: "train T self h (PreprocessedTrainingBatch (PreprocessedRankingInput inp)) =
             (Inr (lp, adv, rl, bl), self', h')"
    and ff: "shape (float_features inp) = B # fs" and rw: "slate_reward inp = Some reward"
    and off: "\<not> on_policy (parameters self)"
    and pr: "tgt_out_probs inp = Some p" and sp: "shape p = shape reward"
    and wr: "wf_tensor reward"
    and wb: "wf_tensor (bn_forward (baseline_net self) (param_data h) inp)"
    and nb: "numel (bn_forward (baseline_net self) (param_data h) inp) = B"
    and wl: "wf_tensor lp" and wp: "wf_tensor p"
    and nzp: "\<forall>q\<in>set (data p). q \<noteq> 0"
  shows "importance_sampling_of self inp lp =
           Inr \<lparr>shape = shape reward, data = map2 (\<lambda>x q. exp x / q) (data lp) (data p),
                requires_grad = requires_grad p\<rparr> \<and>
         rl = \<lparr>shape = [],
               data = [(\<Sum>i<B. - (exp (data lp ! i) / data p ! i) * data lp ! i
                          * (data reward ! i
                              - data (squeeze (bn_forward (baseline_net self) (param_data h) inp)) ! i))
                       / real B],
               requires_grad = False\<rparr>"
proof -
  let ?b = "squeeze (bn_forward (baseline_net self) (param_data h) inp)"
  from ok ff rw obtain lp0 w rl0 where
    lp: "lp = detach lp0" and sl: "shape lp0 = shape reward"
    and w: "importance_sampling_of self inp lp0 = Inr w"
    and rl0: "rl_loss_of w lp0 reward (detach ?b) B = Some rl0"
    and rl: "rl = detach rl0" and sh: "shape ?b = shape reward"
    by (rule train_success)
  have slp: "shape lp = shape reward" and dlp: "data lp = data lp0"
    using lp sl by (simp_all add: detach_def)
  have w1: "importance_sampling_of self inp lp =
              Inr \<lparr>shape = shape p, data = map2 (\<lambda>x q. exp x / q) (data lp) (data p),
                   requires_grad = requires_grad p\<rparr>"
    using off pr _ wl wp by (rule importance_sampling_of_off_policy) (simp add: sp slp)
  with w lp have wv: "w = \<lparr>shape = shape p, data = map2 (\<lambda>x q. exp x / q) (data lp) (data p),
                            requires_grad = requires_grad p\<rparr>"
    by (simp add: importance_sampling_of_detach)
  have "numel ?b = B"
    using nb by (simp add: numel_squeeze)
  then have n: "prod_list (shape reward) = B"
    using sh by (simp add: numel_def)
  have lr: "length (data reward) = B"
    using wr n by (simp add: wf_tensor_def)
  have ll: "length (data lp0) = B"
    using wl n slp dlp by (simp add: wf_tensor_def)
  have lq: "length (data p) = B"
    using wp n sp by (simp add: wf_tensor_def)
  have lb: "length (data (detach ?b)) = B"
    using wf_squeeze [OF wb] sh n by (simp add: wf_tensor_def detach_def)
  have lw: "length (data w) = B"
    using wv ll lq dlp by simp
  from rl_loss_of_same_shape [of w reward lp0 "detach ?b" B, OF _ sl _ n lw ll lr lb, of B]
    rl0 wv sp sh
  have "data rl0 = [(\<Sum>i<B. - (data w ! i) * data lp0 ! i
                       * (data reward ! i - data (detach ?b) ! i)) / real B]"
    and srl: "shape rl0 = []"
    by (simp_all add: detach_def)
  moreover have "(\<Sum>i<B. - (data w ! i) * data lp0 ! i * (data reward ! i - data (detach ?b) ! i))
      = (\<Sum>i<B. - (exp (data lp ! i) / data p ! i) * data lp ! i
                    * (data reward ! i - data ?b ! i))"
    by (rule sum.cong) (simp_all add: wv dlp ll lq detach_def)
  ultimately have drl: "data rl = [(\<Sum>i<B. - (exp (data lp ! i) / data p ! i) * data lp ! i
                    * (data reward ! i - data ?b ! i)) / real B]"
    using rl by (simp add: detach_def)
  have rlv: "rl = \<lparr>shape = [],
               data = [(\<Sum>i<B. - (exp (data lp ! i) / data p ! i) * data lp ! i
                          * (data reward ! i - data ?b ! i)) / real B],
               requires_grad = False\<rparr>"
    using drl srl rl by (simp add: detach_def)
  from w1 sp rlv show ?thesis
    by simp
qed




section \<open>Evaluating the small instance\<close>

lemmas example_defs =
  example_batch_def example_input_def example_heap_def example_trainer_def example_torch_def
  example_seq2slate_net_def example_baseline_net_def rows_def scalar_def vector_def
  init_def new_Adam_def

lemmas tensor_defs =
  tsub_def tmul_def tdiv_def tbinop_def broadcast_shapes_def pad_shape_def
  squeeze_def detach_def tneg_def texp_def tsquare_def tsum_def scale_def tmap_def
  float_tensor_one_def cuda_def

lemmas train_defs =
  train_def train_baseline_def train_seq2slate_def importance_sampling_of_def rl_loss_of_def
  backward_def zero_grad_def step_def step_param_def Let_def

lemmas example_eval =
  example_defs tensor_defs train_defs upt_rec wf_tensor_def numel_def eval_nat_numeral
  on_policy_call_def off_policy_call_def off_policy_pair_call_def


lemma off_policy_loss_formula_example:
  "\<exists>lp adv bl. fst off_policy_pair_call =
     Inr (lp, adv,
          \<lparr>shape = [],
             data = [(- (exp (ln (1 / 2)) / (1 / 4)) * ln (1 / 2) * (3 - 0)
                      + - (exp (ln (1 / 2)) / (1 / 2)) * ln (1 / 2) * (5 - 0)) / 2],
             requires_grad = False\<rparr>, bl)"
proof -
  let ?inp = "example_input 2 (Some (vector [3, 5])) (Some (vector [1 / 4, 1 / 2]))"
  let ?lp = "fst (projr (fst off_policy_pair_call))"
  have ok: "train example_torch (example_trainer False) example_heap
              (PreprocessedTrainingBatch (PreprocessedRankingInput ?inp)) =
            (Inr (?lp, fst (snd (projr (fst off_policy_pair_call))),
                  fst (snd (snd (projr (fst off_policy_pair_call)))),
                  snd (snd (snd (projr (fst off_policy_pair_call))))),
             fst (snd off_policy_pair_call), snd (snd off_policy_pair_call))"
    by (simp add: example_eval)
  have ff: "shape (float_features ?inp) = 2 # [1]"
    and rw: "slate_reward ?inp = Some (vector [3, 5])"
    and off: "\<not> on_policy (parameters (example_trainer False))"
    and pr: "tgt_out_probs ?inp = Some (vector [1 / 4, 1 / 2])"
    and sp: "shape (vector [1 / 4, 1 / 2]) = shape (vector [3, 5])"
    and wr: "wf_tensor (vector [3, 5])"
    and wb: "wf_tensor (bn_forward (baseline_net (example_trainer False))
                          (param_data example_heap) ?inp)"
    and nb: "numel (bn_forward (baseline_net (example_trainer False))
                      (param_data example_heap) ?inp) = 2"
    and wl: "wf_tensor ?lp"
    and wp: "wf_tensor (vector [1 / 4, 1 / 2])"
    and nzp: "\<forall>q\<in>set (data (vector [1 / 4, 1 / 2])). q \<noteq> 0"
    by (simp_all add: example_eval)
  from off_policy_loss_formula [OF ok ff rw off pr sp wr wb nb wl wp nzp]
  show ?thesis
    by (simp add: example_eval lessThan_Suc)
qed

section \<open>The properties of the trainer\<close>

text \<open>
  C1, at a batch of one episode. Off-policy, with reward 3, behavior probability 1/4 and
  log-probability \<open>ln (1 / 2)\<close>, each a vector of shape \<open>[1]\<close>, the importance weight would
  be 2 and the policy loss \<open>- 2 * ln (1 / 2) * (3 - 0)\<close>. The call computes neither:
  \<^verbatim>\<open>squeeze()\<close> at line 53 has left \<open>b\<close> without dimensions, so the assertion of line 63
  fails and \<^verbatim>\<open>train\<close> raises \<^verbatim>\<open>AssertionError\<close>, after the baseline optimizer has
  stepped and with the step counter still 0.
\<close>

theorem off_policy_single_episode_raises:
  "sn_log_probs example_seq2slate_net (param_data (snd (snd off_policy_call)))
     (example_input 1 (Some (vector [3])) (Some (vector [1 / 4]))) LOG_PROB_MODE =
     \<lparr>shape = [1], data = [ln (1 / 2)], requires_grad = True\<rparr> \<and>
   shape (squeeze (bn_forward example_baseline_net (param_data example_heap)
            (example_input 1 (Some (vector [3])) (Some (vector [1 / 4]))))) = [] \<and>
   fst off_policy_call = Inl AssertionError \<and>
   param_data (snd (snd off_policy_call)) 0 \<noteq> param_data example_heap 0 \<and>
   minibatch (fst (snd off_policy_call)) = 0"
  by (simp add: example_eval)

text \<open>
  C2, as the code has it. When \<^verbatim>\<open>slate_reward\<close> does not have one entry per row of
  \<^verbatim>\<open>float_features\<close> (and the baseline network predicts one value per row), the call
  raises, and neither the step counter nor the policy optimizer has changed. The shape
  assertion of line 63 is reached only after the baseline phase has run to its end, so an
  \<^verbatim>\<open>AssertionError\<close> leaves the trainer and the store as the baseline optimizer's step
  made them; any other error is the \<^verbatim>\<open>ZeroDivisionError\<close> or \<^verbatim>\<open>RuntimeError\<close> of
  lines 54 to 56, raised before a parameter has changed.
\<close>

theorem reward_length_mismatch_raises:
  assumes ff: "shape (float_features inp) = B # fs"
    and rw: "slate_reward inp = Some reward"
    and ne: "numel reward \<noteq> B"
    and bn: "numel (bn_forward (baseline_net self) (param_data h) inp) = B"
  shows "\<exists>e self' h'.
           train T self h (PreprocessedTrainingBatch (PreprocessedRankingInput inp)) =
             (Inl e, self', h') \<and>
           minibatch self' = minibatch self \<and> rl_opt self' = rl_opt self \<and>
           (e = AssertionError \<longrightarrow>
              (\<exists>b0 bl0. train_baseline T self h inp reward B = (Inr (b0, bl0), self', h'))) \<and>
           (e \<noteq> AssertionError \<longrightarrow>
              (e = ZeroDivisionError \<or> e = RuntimeError) \<and> self' = self \<and>
              param_data h' = param_data h)"
proof -
  note eq = train_unfold [OF ff rw, of T self h]
  obtain r1 self1 h1 where p1: "train_baseline T self h inp reward B = (r1, self1, h1)"
    by (cases "train_baseline T self h inp reward B")
  show ?thesis
  proof (cases r1)
    case (Inl e)
    from train_baseline_Inl [OF p1 [unfolded Inl]]
    have "self1 = self" "param_data h1 = param_data h" "e = ZeroDivisionError \<or> e = RuntimeError"
      by auto
    with eq p1 Inl show ?thesis by auto
  next
    case (Inr bb)
    obtain b0 bl0 where bb: "bb = (b0, bl0)" by (cases bb)
    from train_baseline_Inr [OF p1 [unfolded Inr bb]]
    obtain opt where b0: "b0 = squeeze (bn_forward (baseline_net self) (param_data h) inp)"
      and s1: "self1 = self\<lparr>baseline_opt := opt\<rparr>"
      by blast
    from b0 bn have "numel (detach b0) = B"
      by (simp add: numel_detach numel_squeeze)
    with ne have "shape (detach b0) \<noteq> shape reward"
      using shape_numel by metis
    then have p2: "train_seq2slate T self1 h1 inp reward B b0 = (Inl AssertionError, self1, h1)"
      by (intro train_seq2slate_assert) simp
    from eq p1 Inr bb p2 s1 show ?thesis by simp
  qed
qed

theorem reward_length_mismatch_raises_witness:
  "shape (float_features (example_input 2 (Some (vector [3])) None)) = 2 # [1] \<and>
   slate_reward (example_input 2 (Some (vector [3])) None) = Some (vector [3]) \<and>
   numel (vector [3]) \<noteq> 2 \<and>
   numel (bn_forward (baseline_net (example_trainer True)) (param_data example_heap)
            (example_input 2 (Some (vector [3])) None)) = 2 \<and>
   fst (train example_torch (example_trainer True) example_heap
          (example_batch 2 (Some (vector [3])) None)) = Inl AssertionError"
  using reward_length_mismatch_raises
    [of "example_input 2 (Some (vector [3])) None" 2 "[1]" "vector [3]" "example_trainer True"
        example_heap example_torch]
  by (simp add: example_defs tensor_defs train_defs numel_def upt_rec)

theorem reward_length_mismatch_counterexample:
  "numel (vector [3]) \<noteq> 2 \<and>
   fst (train example_torch (example_trainer True) example_heap
          (example_batch 2 (Some (vector [3])) None)) = Inl AssertionError \<and>
   param_data (snd (snd (train example_torch (example_trainer True) example_heap
          (example_batch 2 (Some (vector [3])) None)))) 0 \<noteq> param_data example_heap 0 \<and>
   numel (vector [3, 4, 5]) \<noteq> 2 \<and>
   fst (train example_torch (example_trainer True) example_heap
          (example_batch 2 (Some (vector [3, 4, 5])) None)) = Inl RuntimeError"
  by (simp add: example_defs tensor_defs train_defs numel_def upt_rec)

text \<open>
  C3. On-policy, the importance weight is the one-entry tensor 1.0 whatever the batch holds,
  and two calls from the same state on batches that differ only in \<^verbatim>\<open>tgt_out_probs\<close>
  have the same outcome: the same results (policy loss and advantage among them) or the same
  error, and the same trainer and parameter store afterwards. When the call returns, the
  policy loss is the mean over the batch of \<open>- 1 * log_probs\<^sub>i * (reward\<^sub>i - b\<^sub>i)\<close>. The two
  networks, which receive the whole input, do not read \<^verbatim>\<open>tgt_out_probs\<close> either.
\<close>

theorem on_policy_ignores_behavior_probs:
  assumes on: "on_policy (parameters self)"
    and bn: "\<forall>\<sigma> q. bn_forward (baseline_net self) \<sigma> (inp\<lparr>tgt_out_probs := q\<rparr>) =
                    bn_forward (baseline_net self) \<sigma> inp"
    and sn: "\<forall>\<sigma> q m. sn_log_probs (seq2slate_net self) \<sigma> (inp\<lparr>tgt_out_probs := q\<rparr>) m =
                      sn_log_probs (seq2slate_net self) \<sigma> inp m"
  shows "train T self h (PreprocessedTrainingBatch
                           (PreprocessedRankingInput (inp\<lparr>tgt_out_probs := p\<rparr>))) =
         train T self h (PreprocessedTrainingBatch
                           (PreprocessedRankingInput (inp\<lparr>tgt_out_probs := q\<rparr>))) \<and>
         importance_sampling_of self inp l = Inr float_tensor_one \<and>
         (train T self h (PreprocessedTrainingBatch (PreprocessedRankingInput inp)) =
            (Inr (lp, adv, rl, bl), self', h') \<and>
          shape (float_features inp) = B # fs \<and> slate_reward inp = Some reward \<and>
          wf_tensor reward \<and> wf_tensor (bn_forward (baseline_net self) (param_data h) inp) \<and>
          numel (bn_forward (baseline_net self) (param_data h) inp) = B \<and> wf_tensor lp \<longrightarrow>
          rl = \<lparr>shape = [],
                data = [(\<Sum>i<B. - 1 * data lp ! i
                           * (data reward ! i
                               - data (squeeze (bn_forward (baseline_net self) (param_data h) inp)) ! i))
                        / real B],
                requires_grad = False\<rparr>)"
proof (intro conjI impI)
  show "train T self h (PreprocessedTrainingBatch
                           (PreprocessedRankingInput (inp\<lparr>tgt_out_probs := p\<rparr>))) =
        train T self h (PreprocessedTrainingBatch
                           (PreprocessedRankingInput (inp\<lparr>tgt_out_probs := q\<rparr>)))"
    by (rule train_indep [OF on]) (simp_all add: bn sn)
  show "importance_sampling_of self inp l = Inr float_tensor_one"
    using on by (rule importance_sampling_of_on_policy)
next
  let ?b = "squeeze (bn_forward (baseline_net self) (param_data h) inp)"
  assume a: "train T self h (PreprocessedTrainingBatch (PreprocessedRankingInput inp)) =
            (Inr (lp, adv, rl, bl), self', h') \<and>
          shape (float_features inp) = B # fs \<and> slate_reward inp = Some reward \<and>
          wf_tensor reward \<and> wf_tensor (bn_forward (baseline_net self) (param_data h) inp) \<and>
          numel (bn_forward (baseline_net self) (param_data h) inp) = B \<and> wf_tensor lp"
  then have ok: "train T self h (PreprocessedTrainingBatch (PreprocessedRankingInput inp)) =
            (Inr (lp, adv, rl, bl), self', h')"
    and ff: "shape (float_features inp) = B # fs" and rw: "slate_reward inp = Some reward"
    and wr: "wf_tensor reward"
    and wb: "wf_tensor (bn_forward (baseline_net self) (param_data h) inp)"
    and nb: "numel (bn_forward (baseline_net self) (param_data h) inp) = B"
    and wl: "wf_tensor lp"
    by simp_all
  from ok ff rw obtain lp0 w rl0 where
    lp: "lp = detach lp0" and sl: "shape lp0 = shape reward"
    and w: "importance_sampling_of self inp lp0 = Inr w"
    and rl0: "rl_loss_of w lp0 reward (detach ?b) B = Some rl0"
    and rl: "rl = detach rl0" and sh: "shape ?b = shape reward"
    by (rule train_success)
  from w on have wv: "w = float_tensor_one"
    by (simp add: importance_sampling_of_on_policy)
  have dlp: "data lp = data lp0" and slp: "shape lp = shape lp0"
    using lp by (simp_all add: detach_def)
  have "numel ?b = B"
    using nb by (simp add: numel_squeeze)
  then have n: "prod_list (shape reward) = B"
    using sh by (simp add: numel_def)
  have lr: "length (data reward) = B"
    using wr n by (simp add: wf_tensor_def)
  have ll: "length (data lp0) = B"
    using wl n sl slp dlp by (simp add: wf_tensor_def)
  have lb: "length (data (detach ?b)) = B"
    using wf_squeeze [OF wb] sh n by (simp add: wf_tensor_def detach_def)
  from rl_loss_of_one [of lp0 reward "detach ?b" B, OF sl _ n ll lr lb, of B] rl0 wv sh
  have "data rl0 = [(\<Sum>i<B. - 1 * data lp0 ! i * (data reward ! i - data (detach ?b) ! i))
                      / real B]"
    and "shape rl0 = []"
    by (simp_all add: detach_def)
  with rl dlp show "rl = \<lparr>shape = [],
                data = [(\<Sum>i<B. - 1 * data lp ! i * (data reward ! i - data ?b ! i)) / real B],
                requires_grad = False\<rparr>"
    by (simp add: detach_def)
qed

theorem on_policy_ignores_behavior_probs_witness:
  "train example_torch (example_trainer True) example_heap
     (example_batch 2 (Some (vector [3, 5])) None) =
   train example_torch (example_trainer True) example_heap
     (example_batch 2 (Some (vector [3, 5])) (Some (vector [1 / 4, 1 / 2]))) \<and>
   (\<exists>lp adv bl. fst on_policy_call =
      Inr (lp, adv,
           \<lparr>shape = [],
              data = [(- 1 * ln (1 / 2) * (3 - 0) + - 1 * ln (1 / 2) * (5 - 0)) / 2],
              requires_grad = False\<rparr>, bl))"
proof -
  let ?inp = "example_input 2 (Some (vector [3, 5])) None"
  have on: "on_policy (parameters (example_trainer True))"
    and bn: "\<forall>\<sigma> q. bn_forward (baseline_net (example_trainer True)) \<sigma>
                      (?inp\<lparr>tgt_out_probs := q\<rparr>) =
                    bn_forward (baseline_net (example_trainer True)) \<sigma> ?inp"
    and sn: "\<forall>\<sigma> q m. sn_log_probs (seq2slate_net (example_trainer True)) \<sigma>
                        (?inp\<lparr>tgt_out_probs := q\<rparr>) m =
                      sn_log_probs (seq2slate_net (example_trainer True)) \<sigma> ?inp m"
    by (simp_all add: example_defs)
  have ok: "train example_torch (example_trainer True) example_heap
              (PreprocessedTrainingBatch (PreprocessedRankingInput ?inp)) =
            (Inr (fst (projr (fst on_policy_call)), fst (snd (projr (fst on_policy_call))),
                  fst (snd (snd (projr (fst on_policy_call)))),
                  snd (snd (snd (projr (fst on_policy_call))))),
             fst (snd on_policy_call), snd (snd on_policy_call))"
    by (simp add: example_eval)
  have rest: "shape (float_features ?inp) = 2 # [1] \<and>
      slate_reward ?inp = Some (vector [3, 5]) \<and> wf_tensor (vector [3, 5]) \<and>
      wf_tensor (bn_forward (baseline_net (example_trainer True)) (param_data example_heap) ?inp) \<and>
      numel (bn_forward (baseline_net (example_trainer True)) (param_data example_heap) ?inp) = 2 \<and>
      wf_tensor (fst (projr (fst on_policy_call)))"
    by (simp add: example_eval)
  from on_policy_ignores_behavior_probs [OF on bn sn,
         of example_torch example_heap None "Some (vector [1 / 4, 1 / 2])" undefined
            "fst (projr (fst on_policy_call))" "fst (snd (projr (fst on_policy_call)))"
            "fst (snd (snd (projr (fst on_policy_call))))"
            "snd (snd (snd (projr (fst on_policy_call))))"
            "fst (snd on_policy_call)" "snd (snd on_policy_call)" 2 "[1]" "vector [3, 5]"]
    ok rest
  show ?thesis
    by (simp add: example_eval lessThan_Suc)
qed

text \<open>
  C4, as the code has it. Off-policy and with \<^verbatim>\<open>tgt_out_probs\<close> \<^verbatim>\<open>None\<close>, the call
  raises and neither the step counter nor the policy optimizer has changed. Nothing tests
  the field: when the call passes the assertions of lines 63 and 64, it is the division of
  line 68 that raises, a \<^verbatim>\<open>TypeError\<close>, with the trainer and the store as the
  baseline phase left them.
\<close>

theorem missing_behavior_probs_raises:
  assumes off: "\<not> on_policy (parameters self)" and np: "tgt_out_probs inp = None"
  shows "(\<exists>e self' h'.
            train T self h (PreprocessedTrainingBatch (PreprocessedRankingInput inp)) =
              (Inl e, self', h') \<and>
            minibatch self' = minibatch self \<and> rl_opt self' = rl_opt self) \<and>
         (\<forall>B fs reward b0 bl0 self1 h1.
            shape (float_features inp) = B # fs \<and> slate_reward inp = Some reward \<and>
            train_baseline T self h inp reward B = (Inr (b0, bl0), self1, h1) \<and>
            shape b0 = shape reward \<and>
            shape reward = shape (sn_log_probs (seq2slate_net self1) (param_data h1) inp
                                    LOG_PROB_MODE) \<and>
            requires_grad (sn_log_probs (seq2slate_net self1) (param_data h1) inp LOG_PROB_MODE)
            \<longrightarrow> train T self h (PreprocessedTrainingBatch (PreprocessedRankingInput inp)) =
                  (Inl TypeError, self1, h1))"
proof (intro conjI allI impI)
  let ?tb = "PreprocessedTrainingBatch (PreprocessedRankingInput inp)"
  obtain r self' h' where t: "train T self h ?tb = (r, self', h')"
    by (cases "train T self h ?tb")
  show "\<exists>e self' h'. train T self h ?tb = (Inl e, self', h') \<and>
          minibatch self' = minibatch self \<and> rl_opt self' = rl_opt self"
  proof (cases r)
    case (Inl e)
    with t train_Inl [of T self h ?tb e self' h'] show ?thesis by simp
  next
    case (Inr res)
    obtain lp adv rl bl where res: "res = (lp, adv, rl, bl)" by (cases res)
    from train_Inr_batch [OF t [unfolded Inr]] obtain B fs reward where
      ff: "shape (float_features inp) = B # fs" and rw: "slate_reward inp = Some reward"
      by auto
    from train_Inr [OF t [unfolded Inr res] ff rw]
    obtain b0 bl0 self1 h1 lp0 b rl0 self2 where
      p1: "train_baseline T self h inp reward B = (Inr (b0, bl0), self1, h1)" and
      p2: "train_seq2slate T self1 h1 inp reward B b0 = (Inr (lp0, b, rl0), self2, h')"
      by blast
    from train_baseline_Inr [OF p1] obtain opt where "self1 = self\<lparr>baseline_opt := opt\<rparr>"
      by blast
    with off have off1: "\<not> on_policy (parameters self1)" by simp
    from train_seq2slate_Inr [OF p2] obtain w where
      "importance_sampling_of self1 inp lp0 = Inr w" by blast
    with off1 np show ?thesis by (simp add: importance_sampling_of_def)
  qed
next
  fix B fs reward b0 bl0 and self1 :: trainer and h1 :: heap
  let ?lp = "sn_log_probs (seq2slate_net self1) (param_data h1) inp LOG_PROB_MODE"
  assume a: "shape (float_features inp) = B # fs \<and> slate_reward inp = Some reward \<and>
            train_baseline T self h inp reward B = (Inr (b0, bl0), self1, h1) \<and>
            shape b0 = shape reward \<and> shape reward = shape ?lp \<and> requires_grad ?lp"
  then have ff: "shape (float_features inp) = B # fs" and rw: "slate_reward inp = Some reward"
    and p1: "train_baseline T self h inp reward B = (Inr (b0, bl0), self1, h1)"
    and ok: "shape (detach b0) = shape reward" "shape reward = shape ?lp" "requires_grad ?lp"
    by (simp_all add: detach_def)
  from train_baseline_Inr [OF p1] obtain opt where "self1 = self\<lparr>baseline_opt := opt\<rparr>"
    by blast
  with off have off1: "\<not> on_policy (parameters self1)" by simp
  with np have "importance_sampling_of self1 inp ?lp = Inl TypeError"
    by (simp add: importance_sampling_of_def)
  with train_seq2slate_past_assert [OF ok, of T B]
  have "train_seq2slate T self1 h1 inp reward B b0 = (Inl TypeError, self1, h1)"
    by simp
  with train_unfold [OF ff rw, of T self h] p1
  show "train T self h (PreprocessedTrainingBatch (PreprocessedRankingInput inp)) =
          (Inl TypeError, self1, h1)"
    by simp
qed

theorem missing_behavior_probs_raises_witness:
  "\<not> on_policy (parameters (example_trainer False)) \<and>
   tgt_out_probs (example_input 2 (Some (vector [3, 5])) None) = None \<and>
   fst (train example_torch (example_trainer False) example_heap
          (example_batch 2 (Some (vector [3, 5])) None)) = Inl TypeError \<and>
   minibatch (fst (snd (train example_torch (example_trainer False) example_heap
          (example_batch 2 (Some (vector [3, 5])) None)))) = 0"
  using missing_behavior_probs_raises
    [of "example_trainer False" "example_input 2 (Some (vector [3, 5])) None" example_torch
        example_heap]
  by (simp add: example_defs tensor_defs train_defs upt_rec)

theorem missing_behavior_probs_counterexample:
  "\<not> on_policy (parameters (example_trainer False)) \<and>
   tgt_out_probs (example_input 2 (Some (vector [3, 5])) None) = None \<and>
   fst (train example_torch (example_trainer False) example_heap
          (example_batch 2 (Some (vector [3, 5])) None)) = Inl TypeError \<and>
   fst (train example_torch (example_trainer False) example_heap
          (example_batch 2 (Some (vector [3, 5])) None)) \<noteq> Inl AssertionError"
  by (simp add: example_defs tensor_defs train_defs upt_rec)



text \<open>
  C6. When \<^verbatim>\<open>train\<close> returns, the advantage it returns is \<^verbatim>\<open>slate_reward\<close> minus,
  entry by entry, the squeezed output of the baseline network on this call's batch at the
  parameter values the call started with. No value of an earlier call enters: the trainer
  keeps none. The baseline contributes no gradient requirement.
\<close>

theorem advantage_is_reward_minus_baseline:
  assumes ok: "train T self h (PreprocessedTrainingBatch (PreprocessedRankingInput inp)) =
             (Inr (lp, adv, rl, bl), self', h')"
    and ff: "shape (float_features inp) = B # fs" and rw: "slate_reward inp = Some reward"
    and wr: "wf_tensor reward"
    and wb: "wf_tensor (bn_forward (baseline_net self) (param_data h) inp)"
  shows "adv = \<lparr>shape = shape reward,
                data = map2 (\<lambda>r b. r - b) (data reward)
                         (data (squeeze (bn_forward (baseline_net self) (param_data h) inp))),
                requires_grad = requires_grad reward\<rparr> \<and>
         length (data adv) = numel reward \<and>
         (\<forall>i<numel reward.
            data adv ! i =
              data reward ! i
                - data (squeeze (bn_forward (baseline_net self) (param_data h) inp)) ! i)"
proof -
  let ?b = "squeeze (bn_forward (baseline_net self) (param_data h) inp)"
  from ok ff rw obtain d where av: "tsub reward (detach ?b) = Some adv"
    and sh: "shape ?b = shape reward"
    by (rule train_success)
  have sh': "shape reward = shape (detach ?b)"
    using sh by (simp add: detach_def)
  have wd: "wf_tensor (detach ?b)"
    using wf_squeeze [OF wb] by (simp add: wf_tensor_def detach_def)
  from av tbinop_same_shape [OF sh' wr wd, of "\<lambda>r b. r - b"]
  have adv: "adv = \<lparr>shape = shape reward, data = map2 (\<lambda>r b. r - b) (data reward) (data ?b),
                    requires_grad = requires_grad reward\<rparr>"
    using sh by (auto simp: tsub_def detach_def)
  have lr: "length (data reward) = numel reward"
    using wr by (rule wf_length)
  have "numel ?b = numel reward"
    using sh by (simp add: numel_def)
  then have lb: "length (data ?b) = numel reward"
    using wf_length [OF wf_squeeze [OF wb]] by simp
  from adv lr lb show ?thesis by simp
qed

theorem advantage_is_reward_minus_baseline_witness:
  "\<exists>lp rl bl. fst on_policy_call =
     Inr (lp, \<lparr>shape = [2], data = [3 - 0, 5 - 0], requires_grad = False\<rparr>, rl, bl)"
proof -
  let ?inp = "example_input 2 (Some (vector [3, 5])) None"
  have ok: "train example_torch (example_trainer True) example_heap
              (PreprocessedTrainingBatch (PreprocessedRankingInput ?inp)) =
            (Inr (fst (projr (fst on_policy_call)), fst (snd (projr (fst on_policy_call))),
                  fst (snd (snd (projr (fst on_policy_call)))),
                  snd (snd (snd (projr (fst on_policy_call))))),
             fst (snd on_policy_call), snd (snd on_policy_call))"
    by (simp add: example_eval)
  have ff: "shape (float_features ?inp) = 2 # [1]"
    and rw: "slate_reward ?inp = Some (vector [3, 5])"
    and wr: "wf_tensor (vector [3, 5])"
    and wb: "wf_tensor (bn_forward (baseline_net (example_trainer True))
                          (param_data example_heap) ?inp)"
    by (simp_all add: example_eval)
  from advantage_is_reward_minus_baseline [OF ok ff rw wr wb]
  show ?thesis
    by (simp add: example_eval)
qed

text \<open>
  C7. The step counter \<^verbatim>\<open>self.minibatch\<close> is 0 after construction; one call of
  \<^verbatim>\<open>train\<close> adds 1 to it when it returns and leaves it as it was when it raises; so
  over any sequence of calls it is the number of calls that returned, and never decreases.
\<close>

theorem minibatch_counts_successful_calls:
  "minibatch (init seq2slate_net0 baseline_net0 parameters0 n g) = 0 \<and>
   minibatch (fst (snd (train T self h tb))) =
     minibatch self + (case fst (train T self h tb) of Inl e \<Rightarrow> 0 | Inr res \<Rightarrow> 1) \<and>
   minibatch (fst (train_all T (self, h) tbs)) = minibatch self + succeeded T (self, h) tbs \<and>
   minibatch self \<le> minibatch (fst (train_all T (self, h) tbs))"
  using train_all_counter [of T "(self, h)" tbs]
  by (simp add: train_counter init_def)

theorem minibatch_counts_successful_calls_witness:
  "minibatch (fst (train_all example_torch (example_trainer True, example_heap)
     [example_batch 2 (Some (vector [3, 5])) None,
      example_batch 2 None None,
      example_batch 2 (Some (vector [3])) None,
      example_batch 2 (Some (vector [4, 4])) None])) = 2"
  using minibatch_counts_successful_calls
    [of example_seq2slate_net example_baseline_net "\<lparr>on_policy = True\<rparr>" 2 False example_torch
        "example_trainer True" example_heap "example_batch 2 None None"
        "[example_batch 2 (Some (vector [3, 5])) None,
          example_batch 2 None None,
          example_batch 2 (Some (vector [3])) None,
          example_batch 2 (Some (vector [4, 4])) None]"]
  by (simp add: example_defs tensor_defs train_defs upt_rec)

text \<open>
  C8. A batch of the right type whose \<^verbatim>\<open>slate_reward\<close> is \<^verbatim>\<open>None\<close> makes
  \<^verbatim>\<open>train\<close> raise the \<^verbatim>\<open>AssertionError\<close> of line 50, whatever the trainer's
  \<^verbatim>\<open>on_policy\<close> setting; the trainer, both optimizers and the parameter store are
  then exactly as before the call. (The batch has a batch dimension: line 49 reads
  \<^verbatim>\<open>float_features.shape[0]\<close> first.)
\<close>

theorem train_missing_reward:
  assumes "slate_reward inp = None" and "shape (float_features inp) \<noteq> []"
  shows "train T self h (PreprocessedTrainingBatch (PreprocessedRankingInput inp)) =
           (Inl AssertionError, self, h)"
  using assms by (cases "shape (float_features inp)") (simp_all add: train_def)

theorem train_missing_reward_witness:
  "slate_reward (example_input 2 None None) = None \<and>
   shape (float_features (example_input 2 None None)) \<noteq> [] \<and>
   train example_torch (example_trainer True) example_heap (example_batch 2 None None) =
     (Inl AssertionError, example_trainer True, example_heap) \<and>
   train example_torch (example_trainer False) example_heap (example_batch 2 None None) =
     (Inl AssertionError, example_trainer False, example_heap)"
  using train_missing_reward [of "example_input 2 None None" example_torch
          "example_trainer True" example_heap]
        train_missing_reward [of "example_input 2 None None" example_torch
          "example_trainer False" example_heap]
  by (simp add: example_batch_def example_input_def)

text \<open>
  C9. On a trainer made by the constructor, in any later call, the baseline phase changes
  the value of no parameter outside \<^verbatim>\<open>baseline_net.parameters()\<close> and leaves the policy
  optimizer as it was; the policy phase changes the value of no parameter outside
  \<^verbatim>\<open>seq2slate_net.parameters()\<close> and leaves the baseline optimizer as it was; each
  optimizer stays bound to the parameters of its network. So when the two networks share no
  parameter, the baseline phase changes no policy parameter and the policy phase no baseline
  parameter. A whole call changes nothing outside the two parameter lists.
\<close>

theorem optimizers_update_only_their_own_network:
  assumes c: "constructed T self"
    and p1: "train_baseline T self h inp reward B = (r1, self1, h1)"
    and p2: "train_seq2slate T self1 h1 inp reward B b0 = (r2, self2, h2)"
  shows "(\<forall>a. a \<notin> set (bn_parameters (baseline_net self)) \<longrightarrow> param_data h1 a = param_data h a) \<and>
         (\<forall>a. a \<notin> set (sn_parameters (seq2slate_net self)) \<longrightarrow> param_data h2 a = param_data h1 a) \<and>
         rl_opt self1 = rl_opt self \<and> baseline_opt self2 = baseline_opt self1 \<and>
         param_groups (baseline_opt self2) = bn_parameters (baseline_net self) \<and>
         param_groups (rl_opt self2) = sn_parameters (seq2slate_net self) \<and>
         (set (bn_parameters (baseline_net self)) \<inter> set (sn_parameters (seq2slate_net self)) = {}
            \<longrightarrow> (\<forall>a\<in>set (sn_parameters (seq2slate_net self)). param_data h1 a = param_data h a) \<and>
                (\<forall>a\<in>set (bn_parameters (baseline_net self)). param_data h2 a = param_data h1 a)) \<and>
         (train T self h tb = (r, self', h') \<longrightarrow>
            (\<forall>a. a \<notin> set (bn_parameters (baseline_net self))
                      \<union> set (sn_parameters (seq2slate_net self)) \<longrightarrow>
                 param_data h' a = param_data h a))"
proof -
  from constructed_bound [OF c]
  have gb: "param_groups (baseline_opt self) = bn_parameters (baseline_net self)"
    and gr: "param_groups (rl_opt self) = sn_parameters (seq2slate_net self)"
    by simp_all
  from train_baseline_frame [OF p1] obtain opt1 where
    s1: "self1 = self\<lparr>baseline_opt := opt1\<rparr>"
    and g1: "param_groups opt1 = param_groups (baseline_opt self)"
    and f1: "\<forall>a. a \<notin> set (param_groups (baseline_opt self)) \<longrightarrow> param_data h1 a = param_data h a"
    by blast
  from train_seq2slate_frame [OF p2] obtain opt2 where
    s2: "self2 = self1\<lparr>rl_opt := opt2\<rparr>"
    and g2: "param_groups opt2 = param_groups (rl_opt self1)"
    and f2: "\<forall>a. a \<notin> set (param_groups (rl_opt self1)) \<longrightarrow> param_data h2 a = param_data h1 a"
    by blast
  have a1: "\<forall>a. a \<notin> set (bn_parameters (baseline_net self)) \<longrightarrow> param_data h1 a = param_data h a"
    using f1 gb by simp
  have a2: "\<forall>a. a \<notin> set (sn_parameters (seq2slate_net self)) \<longrightarrow> param_data h2 a = param_data h1 a"
    using f2 gr s1 by simp
  have a3: "rl_opt self1 = rl_opt self" "baseline_opt self2 = baseline_opt self1"
    "param_groups (baseline_opt self2) = bn_parameters (baseline_net self)"
    "param_groups (rl_opt self2) = sn_parameters (seq2slate_net self)"
    using s1 s2 g1 g2 gb gr by simp_all
  have a4: "(\<forall>a\<in>set (sn_parameters (seq2slate_net self)). param_data h1 a = param_data h a) \<and>
            (\<forall>a\<in>set (bn_parameters (baseline_net self)). param_data h2 a = param_data h1 a)"
    if "set (bn_parameters (baseline_net self)) \<inter> set (sn_parameters (seq2slate_net self)) = {}"
    using that a1 a2 by blast
  have a5: "\<forall>a. a \<notin> set (bn_parameters (baseline_net self))
                      \<union> set (sn_parameters (seq2slate_net self)) \<longrightarrow>
                 param_data h' a = param_data h a"
    if "train T self h tb = (r, self', h')"
    using train_frame [OF that] gb gr by simp
  from a1 a2 a3 a4 a5 show ?thesis by blast
qed

theorem optimizers_update_only_their_own_network_witness:
  "param_data (snd (snd example_baseline_phase)) 0 \<noteq> param_data example_heap 0 \<and>
   param_data (snd (snd example_baseline_phase)) 1 = param_data example_heap 1 \<and>
   param_data (snd (snd example_policy_phase)) 1 \<noteq> param_data (snd (snd example_baseline_phase)) 1 \<and>
   param_data (snd (snd example_policy_phase)) 0 = param_data (snd (snd example_baseline_phase)) 0"
proof -
  let ?inp = "example_input 2 (Some (vector [3, 5])) None"
  let ?b0 = "squeeze (bn_forward example_baseline_net (param_data example_heap) ?inp)"
  have c: "constructed example_torch (example_trainer True)"
    unfolding example_trainer_def by (rule constructed_init)
  have p1: "train_baseline example_torch (example_trainer True) example_heap ?inp (vector [3, 5]) 2 =
              (fst example_baseline_phase, fst (snd example_baseline_phase),
               snd (snd example_baseline_phase))"
    by (simp add: example_baseline_phase_def)
  have p2: "train_seq2slate example_torch (fst (snd example_baseline_phase))
              (snd (snd example_baseline_phase)) ?inp (vector [3, 5]) 2 ?b0 =
              (fst example_policy_phase, fst (snd example_policy_phase),
               snd (snd example_policy_phase))"
    by (simp add: example_policy_phase_def)
  have d: "set (bn_parameters (baseline_net (example_trainer True))) \<inter>
           set (sn_parameters (seq2slate_net (example_trainer True))) = {}"
    and m: "0 \<in> set (bn_parameters (baseline_net (example_trainer True)))"
           "1 \<in> set (sn_parameters (seq2slate_net (example_trainer True)))"
    by (simp_all add: example_defs)
  have ch: "param_data (snd (snd example_baseline_phase)) 0 \<noteq> param_data example_heap 0"
    "param_data (snd (snd example_policy_phase)) 1 \<noteq> param_data (snd (snd example_baseline_phase)) 1"
    by (simp_all add: example_eval example_baseline_phase_def example_policy_phase_def)
  from optimizers_update_only_their_own_network [OF c p1 p2] d m ch
  show ?thesis
    by blast
qed



end
